theory Spec2Isabelle
  imports Complex_Main "HOL-Library.AList"
begin

section \<open>JavaScript values\<close>

text \<open>
  A thrown JavaScript \<open>Error\<close> is a value carrying its message. Every function of the
  source that can throw returns \<open>error + 'a\<close>, with \<open>Inl\<close> for the exception.
\<close>

datatype error = Error (message: string)

text \<open>
  JavaScript numbers are IEEE 754 doubles. A finite double is modelled by the real number
  that it denotes, next to the two infinities and NaN. \<open>binary64\<close> rounds a real number
  to the nearest double, to the even significand on a tie, to a subnormal or to zero at the
  bottom of the range and to an infinity at the top: with \<open>e\<close> the exponent of the last
  place, the result is the nearest integer multiple of \<open>2 ^ e\<close>. Every arithmetic
  operation returns the rounded exact result, as IEEE 754 prescribes. The sign of zero is
  not modelled.
\<close>

datatype jsnum = Num real | PInf | NInf | NaN

function bit_length :: "int \<Rightarrow> int" where
  "bit_length n = (if n \<le> 0 then 0 else 1 + bit_length (n div 2))"
  by pat_completeness auto
termination
  by (relation "measure nat") auto

declare bit_length.simps [simp del]

definition pow2 :: "int \<Rightarrow> real" where
  "pow2 e = (if 0 \<le> e then of_int (2 ^ nat e) else 1 / of_int (2 ^ nat (- e)))"

text \<open>The integer part of the binary logarithm of a positive number.\<close>

definition floor_log2 :: "real \<Rightarrow> int" where
  "floor_log2 a = (if 1 \<le> a then bit_length \<lfloor>a\<rfloor> - 1 else - bit_length \<lfloor>1 / a\<rfloor>)"

definition round_half_even :: "real \<Rightarrow> int" where
  "round_half_even x =
     (let n = \<lfloor>x\<rfloor>; r = x - of_int n
      in if r < 1 / 2 then n else if 1 / 2 < r then n + 1 else if even n then n else n + 1)"

definition binary64 :: "real \<Rightarrow> jsnum" where
  "binary64 x =
     (if x = 0 then Num 0
      else
        (let e = max (- 1074) (floor_log2 \<bar>x\<bar> - 52);
             v = of_int (round_half_even (\<bar>x\<bar> / pow2 e)) * pow2 e
         in if pow2 1024 \<le> v then (if 0 < x then PInf else NInf)
            else Num (if 0 < x then v else - v)))"

fun js_neg :: "jsnum \<Rightarrow> jsnum" where
  "js_neg (Num a) = Num (- a)"
| "js_neg PInf = NInf"
| "js_neg NInf = PInf"
| "js_neg NaN = NaN"

fun js_add :: "jsnum \<Rightarrow> jsnum \<Rightarrow> jsnum" where
  "js_add NaN _ = NaN"
| "js_add _ NaN = NaN"
| "js_add (Num a) (Num b) = binary64 (a + b)"
| "js_add PInf NInf = NaN"
| "js_add NInf PInf = NaN"
| "js_add PInf _ = PInf"
| "js_add _ PInf = PInf"
| "js_add NInf _ = NInf"
| "js_add _ NInf = NInf"

definition js_sub :: "jsnum \<Rightarrow> jsnum \<Rightarrow> jsnum" where
  "js_sub a b = js_add a (js_neg b)"

fun js_mul :: "jsnum \<Rightarrow> jsnum \<Rightarrow> jsnum" where
  "js_mul NaN _ = NaN"
| "js_mul _ NaN = NaN"
| "js_mul (Num a) (Num b) = binary64 (a * b)"
| "js_mul (Num a) PInf = (if a = 0 then NaN else if 0 < a then PInf else NInf)"
| "js_mul (Num a) NInf = (if a = 0 then NaN else if 0 < a then NInf else PInf)"
| "js_mul PInf (Num b) = (if b = 0 then NaN else if 0 < b then PInf else NInf)"
| "js_mul NInf (Num b) = (if b = 0 then NaN else if 0 < b then NInf else PInf)"
| "js_mul PInf PInf = PInf"
| "js_mul NInf NInf = PInf"
| "js_mul PInf NInf = NInf"
| "js_mul NInf PInf = NInf"

text \<open>Division never throws: a zero divisor gives an infinity, or NaN for \<open>0 / 0\<close>.\<close>

fun js_div :: "jsnum \<Rightarrow> jsnum \<Rightarrow> jsnum" where
  "js_div NaN _ = NaN"
| "js_div _ NaN = NaN"
| "js_div (Num a) (Num b) =
     (if b = 0 then (if a = 0 then NaN else if 0 < a then PInf else NInf) else binary64 (a / b))"
| "js_div (Num a) PInf = Num 0"
| "js_div (Num a) NInf = Num 0"
| "js_div PInf (Num b) = (if 0 \<le> b then PInf else NInf)"
| "js_div NInf (Num b) = (if 0 \<le> b then NInf else PInf)"
| "js_div _ _ = NaN"

fun js_lt :: "jsnum \<Rightarrow> jsnum \<Rightarrow> bool" where
  "js_lt (Num a) (Num b) = (a < b)"
| "js_lt (Num a) PInf = True"
| "js_lt NInf (Num b) = True"
| "js_lt NInf PInf = True"
| "js_lt _ _ = False"

definition js_gt :: "jsnum \<Rightarrow> jsnum \<Rightarrow> bool" where
  "js_gt a b = js_lt b a"

definition js_le :: "jsnum \<Rightarrow> jsnum \<Rightarrow> bool" where
  "js_le a b = (a \<noteq> NaN \<and> b \<noteq> NaN \<and> (js_lt a b \<or> a = b))"

definition js_ge :: "jsnum \<Rightarrow> jsnum \<Rightarrow> bool" where
  "js_ge a b = js_le b a"

fun Math_abs :: "jsnum \<Rightarrow> jsnum" where
  "Math_abs (Num a) = Num \<bar>a\<bar>"
| "Math_abs PInf = PInf"
| "Math_abs NInf = PInf"
| "Math_abs NaN = NaN"

definition Math_min :: "jsnum \<Rightarrow> jsnum \<Rightarrow> jsnum" where
  "Math_min a b = (if a = NaN \<or> b = NaN then NaN else if js_lt b a then b else a)"

text \<open>
  \<open>ethers.BigNumber\<close> is an unbounded signed integer: \<open>add\<close>, \<open>sub\<close> and \<open>mul\<close> are
  those of \<open>int\<close>. \<open>div\<close> throws on a zero divisor and otherwise gives the quotient
  truncated towards zero, \<open>bn_quot\<close>; \<open>toNumber\<close> throws outside the 53-bit range.
\<close>

definition bn_quot :: "int \<Rightarrow> int \<Rightarrow> int" where
  "bn_quot a b = sgn a * sgn b * (\<bar>a\<bar> div \<bar>b\<bar>)"

definition bn_div :: "int \<Rightarrow> int \<Rightarrow> error + int" where
  "bn_div a b = (if b = 0 then Inl (Error ''division-by-zero'') else Inr (bn_quot a b))"

definition bn_toNumber :: "int \<Rightarrow> error + jsnum" where
  "bn_toNumber v = (if \<bar>v\<bar> < 2 ^ 53 then Inr (Num (of_int v)) else Inl (Error ''overflow''))"

text \<open>
  The conversions between numbers, big numbers and strings belong to the JavaScript
  runtime and to the ethers library, neither of which is part of the repository. They are
  a parameter of every function that calls them.
\<close>

record host =
  parseEther :: "string \<Rightarrow> error + int"
  formatEther :: "int \<Rightarrow> string"
  bn_toString :: "int \<Rightarrow> string"
  num_toString :: "jsnum \<Rightarrow> string"
  toFixed :: "nat \<Rightarrow> jsnum \<Rightarrow> string"
  parseFloat :: "string \<Rightarrow> jsnum"
  ToNumber :: "string \<Rightarrow> jsnum"

text \<open>
  The relational operators on two strings compare them by code units, lexicographically;
  a proper prefix is the smaller string.
\<close>

fun str_lt :: "string \<Rightarrow> string \<Rightarrow> bool" where
  "str_lt [] [] = False"
| "str_lt [] (y # ys) = True"
| "str_lt (x # xs) [] = False"
| "str_lt (x # xs) (y # ys) =
     (if x = y then str_lt xs ys else (of_char x :: nat) < of_char y)"

definition str_gt :: "string \<Rightarrow> string \<Rightarrow> bool" where
  "str_gt a b = str_lt b a"

section \<open>Data model\<close>

type_synonym network = string
type_synonym address = string

text \<open>
  A token of \<open>config/tokens.js\<close>; \<open>networks\<close> is the field that
  \<open>findCrosschainLSDTokens\<close> adds. An object is an association list in insertion order.
\<close>

record token =
  name :: string
  symbol :: string
  addresses :: "(network \<times> address) list"
  decimals :: nat
  networks :: "network list"

record price =
  tokenSymbol :: string
  priceInEth :: jsnum
  priceInUsd :: jsnum

record gas_estimate =
  gasEstimate :: int
  gasCost :: int
  gasCostEth :: string

record analysis =
  isProfitable :: bool
  priceDiffPercentage :: jsnum
  expectedBuyAmountWei :: int
  expectedBuyAmountToken :: string
  expectedSellAmountWei :: int
  expectedSellAmountToken :: string
  expectedEthFromSellWei :: int
  expectedEthFromSellETH :: string
  estimatedGasCostBuy :: gas_estimate
  estimatedGasCostSell :: gas_estimate
  bridgeFee :: string
  bridgeBackFee :: string
  totalCostsWei :: int
  totalCostsETH :: string
  estimatedProfitWei :: int
  estimatedProfitETH :: string
  estimatedProfitUSD :: string
  estimatedROI :: jsnum
  optimalTradeSize :: string
  reason :: string

record opportunity =
  token :: token
  buyNetwork :: network
  sellNetwork :: network
  buyPrice :: price
  sellPrice :: price
  priceDifference :: jsnum
  profitability :: analysis
  timestamp :: int

record plan_step =
  step :: nat
  action :: string
  network :: network
  details :: string

record strategy =
  opportunity :: opportunity
  useFlashLoan :: bool
  tradeSize :: int
  estimatedGasCostsBuy :: gas_estimate
  estimatedGasCostsSell :: gas_estimate
  bridgeFee :: int
  bridgeTime :: jsnum
  steps :: "plan_step list"
  estimatedProfitWei :: int
  estimatedProfitETH :: string
  estimatedProfitUSD :: string
  estimatedROI :: jsnum
  estimatedTime :: jsnum


text \<open>The result of \<open>calculatePnL\<close>.\<close>

record pnl =
  startingBalanceWei :: int
  startingBalanceEth :: string
  endingBalanceWei :: int
  endingBalanceEth :: string
  grossProfitWei :: int
  grossProfitEth :: string
  gasUsedWei :: int
  gasUsedEth :: string
  netProfitWei :: int
  netProfitEth :: string
  roi :: string
  isProfit :: bool

text \<open>
  A step of an execution. Fields that the source assigns only on some paths are options
  (\<open>None\<close> is \<open>undefined\<close>). A \<open>Date\<close> is the instant it denotes, in milliseconds.
\<close>

record exec_step =
  step :: nat
  action :: string
  network :: network
  status :: string
  startTime :: int
  endTime :: "int option"
  txHash :: "string option"
  inputAmount :: "string option"
  outputAmount :: "string option"
  amount :: "string option"
  error :: "string option"
  details :: "string option"
  flashLoan :: "bool option"

record balance =
  wei :: string
  eth :: string

record execution =
  strategy :: strategy
  startTime :: int
  endTime :: "int option"
  steps :: "exec_step list option"
  status :: string
  error :: "string option"
  pnl :: "pnl option"
  startBalances :: "(network \<times> balance) list option"
  endBalances :: "(network \<times> balance) list option"
  totalGasUsed :: "string option"
  durationMs :: "int option"
  flashLoan :: "bool option"
  flashLoanTxHash :: "string option"
  flashLoanAmount :: "string option"
  flashLoanProfit :: "string option"
  profit :: "string option"

section \<open>The PnL ledger: class \<open>PnLTracker\<close>\<close>

record trade =
  id :: nat
  timestamp :: int
  token :: string
  buyNetwork :: network
  sellNetwork :: network
  buyPrice :: jsnum
  sellPrice :: jsnum
  tradeSize :: string
  status :: string
  steps :: "exec_step list option"
  pnl :: "pnl option"
  durationMs :: "int option"
  flashLoan :: bool

record pnl_point =
  timestamp :: int
  tradeId :: nat
  profit :: jsnum
  balance :: jsnum
  token :: string

text \<open>
  \<open>getTradeHistory\<close> sorts an array in place, so whether it sorts \<open>this.trades\<close> or a copy
  is a question of aliasing. Arrays of trades therefore live in a store, and the tracker's
  field \<open>trades\<close> holds the address of its array. \<open>next_free\<close> is the first address that
  no array occupies yet.
\<close>

type_synonym addr = nat

record store =
  cells :: "addr \<Rightarrow> trade list"
  next_free :: addr

definition array_new :: "trade list \<Rightarrow> store \<Rightarrow> addr \<times> store" where
  "array_new xs s =
     (next_free s, s\<lparr>cells := (cells s)(next_free s := xs), next_free := Suc (next_free s)\<rparr>)"

definition array_push :: "addr \<Rightarrow> trade \<Rightarrow> store \<Rightarrow> store" where
  "array_push a x s = s\<lparr>cells := (cells s)(a := cells s a @ [x])\<rparr>"

text \<open>The spread \<open>[...arr]\<close> allocates a new array with the same elements.\<close>

definition array_spread :: "addr \<Rightarrow> store \<Rightarrow> addr \<times> store" where
  "array_spread a s = array_new (cells s a) s"

text \<open>
  \<open>Array.prototype.sort\<close> with the comparator
  \<open>(a, b) => new Date(b.timestamp) - new Date(a.timestamp)\<close> rearranges the array at the
  given address, newest first; the sort is stable.
\<close>

definition array_sort_newest_first :: "addr \<Rightarrow> store \<Rightarrow> store" where
  "array_sort_newest_first a s =
     s\<lparr>cells := (cells s)(a := sort_key (\<lambda>t. - trade.timestamp t) (cells s a))\<rparr>"

text \<open>
  \<open>Array.prototype.slice(start, end)\<close>: a negative index counts from the end, and both are
  clamped to the array; the result is a new array.
\<close>

definition slice_index :: "nat \<Rightarrow> int \<Rightarrow> nat" where
  "slice_index len i = (if i < 0 then nat (max (int len + i) 0) else min (nat i) len)"

definition js_slice :: "'a list \<Rightarrow> int \<Rightarrow> int \<Rightarrow> 'a list" where
  "js_slice xs start fin =
     (let k = slice_index (length xs) start; e = slice_index (length xs) fin
      in take (e - k) (drop k xs))"

definition array_slice :: "addr \<Rightarrow> int \<Rightarrow> int \<Rightarrow> store \<Rightarrow> addr \<times> store" where
  "array_slice a start fin s = array_new (js_slice (cells s a) start fin) s"

record tracker =
  initialBalanceETH :: jsnum
  currentBalanceETH :: jsnum
  trades :: addr
  pnlHistory :: "pnl_point list"

text \<open>
  The constructor and \<open>loadData\<close>. The two files are given as what reading and parsing
  them yields: \<open>None\<close> when the file does not exist, an error when reading throws. One
  \<open>try\<close> block surrounds both reads, so a failure of the first skips the second.
\<close>

definition loadData ::
  "(error + pnl_point list) option \<Rightarrow> (error + trade list) option \<Rightarrow>
   tracker \<times> store \<Rightarrow> tracker \<times> store" where
  "loadData pnlFile tradesFile ts =
     (let (t, s) = ts in
      case pnlFile of
        Some (Inl e) \<Rightarrow> (t, s)
      | _ \<Rightarrow>
        (let t1 = (case pnlFile of
                     Some (Inr pnlData) \<Rightarrow>
                       (let t0 = t\<lparr>pnlHistory := pnlData\<rparr>
                        in if length pnlData > 0
                           then t0\<lparr>currentBalanceETH := pnl_point.balance (last pnlData)\<rparr>
                           else t0)
                   | _ \<Rightarrow> t)
         in case tradesFile of
              None \<Rightarrow> (t1, s)
            | Some (Inl e) \<Rightarrow> (t1, s)
            | Some (Inr tradesData) \<Rightarrow>
                (let (a, s1) = array_new tradesData s in (t1\<lparr>trades := a\<rparr>, s1))))"

definition new_PnLTracker ::
  "jsnum \<Rightarrow> (error + pnl_point list) option \<Rightarrow> (error + trade list) option \<Rightarrow>
   store \<Rightarrow> tracker \<times> store" where
  "new_PnLTracker initialBalance pnlFile tradesFile s =
     (let (a, s1) = array_new [] s
      in loadData pnlFile tradesFile
           (\<lparr>initialBalanceETH = initialBalance, currentBalanceETH = initialBalance,
             trades = a, pnlHistory = []\<rparr>, s1))"

text \<open>
  \<open>recordTrade\<close>. \<open>now\<close> is the value of \<open>new Date()\<close>. \<open>saveData\<close> writes the two files
  and catches its own errors; it changes neither the tracker nor the store. The record is
  pushed before the status is looked at; the balance and the history change under the
  guard \<open>execution.status === 'success' && execution.pnl\<close>.
\<close>

definition make_trade :: "host \<Rightarrow> int \<Rightarrow> nat \<Rightarrow> execution \<Rightarrow> trade" where
  "make_trade h now n execution =
     \<lparr>trade.id = n + 1,
      trade.timestamp = now,
      trade.token = token.symbol (opportunity.token (opportunity (strategy execution))),
      trade.buyNetwork = opportunity.buyNetwork (opportunity (strategy execution)),
      trade.sellNetwork = opportunity.sellNetwork (opportunity (strategy execution)),
      trade.buyPrice = priceInEth (opportunity.buyPrice (opportunity (strategy execution))),
      trade.sellPrice = priceInEth (opportunity.sellPrice (opportunity (strategy execution))),
      trade.tradeSize = formatEther h (strategy.tradeSize (strategy execution)),
      trade.status = execution.status execution,
      trade.steps = execution.steps execution,
      trade.pnl = execution.pnl execution,
      trade.durationMs = execution.durationMs execution,
      trade.flashLoan = (case execution.flashLoan execution of Some b \<Rightarrow> b | None \<Rightarrow> False)\<rparr>"

definition recordTrade ::
  "host \<Rightarrow> int \<Rightarrow> execution \<Rightarrow> tracker \<times> store \<Rightarrow> trade \<times> tracker \<times> store" where
  "recordTrade h now execution ts =
     (let (t, s) = ts;
          trade = make_trade h now (length (cells s (trades t))) execution;
          s1 = array_push (trades t) trade s
      in case execution.pnl execution of
           Some p \<Rightarrow>
             if execution.status execution = ''success'' then
               (let profit = parseFloat h (netProfitEth p);
                    bal = js_add (currentBalanceETH t) profit
                in (trade,
                    t\<lparr>currentBalanceETH := bal,
                      pnlHistory := pnlHistory t @
                        [\<lparr>pnl_point.timestamp = now, tradeId = trade.id trade,
                          profit = profit, balance = bal,
                          pnl_point.token =
                            token.symbol (opportunity.token (opportunity (strategy execution)))\<rparr>]\<rparr>,
                    s1))
             else (trade, t, s1)
         | None \<Rightarrow> (trade, t, s1))"

text \<open>\<open>reset\<close> binds fresh empty arrays and restores the initial balance.\<close>

definition reset :: "tracker \<times> store \<Rightarrow> tracker \<times> store" where
  "reset ts =
     (let (t, s) = ts; (a, s1) = array_new [] s
      in (t\<lparr>currentBalanceETH := initialBalanceETH t, trades := a, pnlHistory := []\<rparr>, s1))"

text \<open>
  \<open>getTradeHistory\<close>: copy, sort the copy, slice. The function assigns no field of
  \<open>this\<close>; the tracker is returned as it was given.
\<close>

record history_page =
  total :: nat
  limit :: int
  offset :: int
  trades :: addr

definition getTradeHistory ::
  "int \<Rightarrow> int \<Rightarrow> tracker \<times> store \<Rightarrow> history_page \<times> tracker \<times> store" where
  "getTradeHistory lmt ofs ts =
     (let (t, s) = ts;
          (sortedTrades, s1) = array_spread (tracker.trades t) s;
          s2 = array_sort_newest_first sortedTrades s1;
          (page, s3) = array_slice sortedTrades ofs (ofs + lmt) s2
      in (\<lparr>total = length (cells s2 sortedTrades), limit = lmt, offset = ofs,
           trades = page\<rparr>, t, s3))"

text \<open>What a caller can read from a returned page: its numbers and the trades of its array.\<close>

definition page_contents ::
  "history_page \<times> tracker \<times> store \<Rightarrow> nat \<times> int \<times> int \<times> trade list" where
  "page_contents r =
     (let (p, t, s) = r in (total p, limit p, offset p, cells s (history_page.trades p)))"

text \<open>
  \<open>getSummary\<close>. The first loop carries four variables, all starting at zero; a trade
  without \<open>pnl\<close> is skipped.
\<close>

record totals =
  totalProfit :: jsnum
  totalGasCost :: jsnum
  largestProfit :: jsnum
  largestLoss :: jsnum

definition totals_step :: "host \<Rightarrow> totals \<Rightarrow> trade \<Rightarrow> totals" where
  "totals_step h acc tr =
     (case trade.pnl tr of
        None \<Rightarrow> acc
      | Some p \<Rightarrow>
          (let profit = parseFloat h (netProfitEth p);
               gasCost = parseFloat h (gasUsedEth p);
               acc1 = acc\<lparr>totalProfit := js_add (totalProfit acc) profit,
                          totalGasCost := js_add (totalGasCost acc) gasCost\<rparr>;
               acc2 = (if js_gt profit (largestProfit acc1)
                       then acc1\<lparr>largestProfit := profit\<rparr> else acc1)
           in if js_lt profit (largestLoss acc2)
              then acc2\<lparr>largestLoss := profit\<rparr> else acc2))"

definition totals_loop :: "host \<Rightarrow> trade list \<Rightarrow> totals" where
  "totals_loop h ts =
     foldl (totals_step h)
       \<lparr>totalProfit = Num 0, totalGasCost = Num 0, largestProfit = Num 0, largestLoss = Num 0\<rparr>
       ts"

text \<open>
  The two breakdowns are objects keyed by token symbol and by network pair: association
  lists in insertion order. Keys inherited from \<open>Object.prototype\<close> are not modelled.
\<close>

record perf =
  trades :: nat
  successfulTrades :: nat
  totalProfit :: jsnum

definition perf_count :: "host \<Rightarrow> string \<Rightarrow> trade \<Rightarrow> pnl \<Rightarrow> (string \<times> perf) list \<Rightarrow> (string \<times> perf) list" where
  "perf_count h key tr p obj =
     (let obj1 = (if map_of obj key = None
                  then obj @ [(key, \<lparr>perf.trades = 0, successfulTrades = 0, totalProfit = Num 0\<rparr>)]
                  else obj);
          bump = (\<lambda>q.
            (let q1 = q\<lparr>perf.trades := perf.trades q + 1\<rparr>
             in if trade.status tr = ''success''
                then q1\<lparr>successfulTrades := successfulTrades q1 + 1,
                        perf.totalProfit := js_add (perf.totalProfit q1) (parseFloat h (netProfitEth p))\<rparr>
                else q1))
      in map (\<lambda>(k, q). if k = key then (k, bump q) else (k, q)) obj1)"

definition tokenPerformance_step :: "host \<Rightarrow> (string \<times> perf) list \<Rightarrow> trade \<Rightarrow> (string \<times> perf) list" where
  "tokenPerformance_step h obj tr =
     (case trade.pnl tr of
        None \<Rightarrow> obj
      | Some p \<Rightarrow> if trade.token tr \<noteq> [] then perf_count h (trade.token tr) tr p obj else obj)"

definition networkPerformance_step :: "host \<Rightarrow> (string \<times> perf) list \<Rightarrow> trade \<Rightarrow> (string \<times> perf) list" where
  "networkPerformance_step h obj tr =
     (case trade.pnl tr of
        None \<Rightarrow> obj
      | Some p \<Rightarrow>
          if trade.buyNetwork tr \<noteq> [] \<and> trade.sellNetwork tr \<noteq> []
          then perf_count h (trade.buyNetwork tr @ ''-'' @ trade.sellNetwork tr) tr p obj
          else obj)"

record summary =
  initialBalance :: jsnum
  currentBalance :: jsnum
  totalTrades :: nat
  successfulTrades :: nat
  failedTrades :: nat
  winRate :: string
  totalProfit :: string
  totalGasCost :: string
  netProfit :: string
  roi :: string
  largestProfit :: string
  largestLoss :: string
  tokenPerformance :: "(string \<times> perf) list"
  networkPerformance :: "(string \<times> perf) list"

definition getSummary :: "host \<Rightarrow> tracker \<Rightarrow> store \<Rightarrow> summary" where
  "getSummary h t s =
     (let ts = cells s (tracker.trades t);
          totalTrades = length ts;
          successfulTrades = length (filter (\<lambda>tr. trade.status tr = ''success'') ts);
          failedTrades = totalTrades - successfulTrades;
          acc = totals_loop h ts;
          winRate = (if totalTrades > 0
                     then js_mul (js_div (Num (real successfulTrades)) (Num (real totalTrades))) (Num 100)
                     else Num 0);
          roi = js_mul (js_div (js_sub (currentBalanceETH t) (initialBalanceETH t))
                               (initialBalanceETH t)) (Num 100)
      in \<lparr>initialBalance = initialBalanceETH t,
          currentBalance = currentBalanceETH t,
          totalTrades = totalTrades,
          summary.successfulTrades = successfulTrades,
          failedTrades = failedTrades,
          winRate = toFixed h 2 winRate @ ''%'',
          summary.totalProfit = toFixed h 4 (totals.totalProfit acc),
          summary.totalGasCost = toFixed h 4 (totals.totalGasCost acc),
          netProfit = toFixed h 4 (js_sub (totals.totalProfit acc) (totals.totalGasCost acc)),
          summary.roi = toFixed h 2 roi @ ''%'',
          summary.largestProfit = toFixed h 4 (totals.largestProfit acc),
          summary.largestLoss = toFixed h 4 (totals.largestLoss acc),
          tokenPerformance = foldl (tokenPerformance_step h) [] ts,
          networkPerformance = foldl (networkPerformance_step h) [] ts\<rparr>)"

text \<open>
  To state what a sequence of calls does: \<open>record_all\<close> records executions one after
  the other, each with the instant of its call. An execution passes the guard of
  \<open>recordTrade\<close> when its status is \<open>success\<close> and it carries a \<open>pnl\<close>; its net profit
  is the number that \<open>recordTrade\<close> reads from it. \<open>trade_profit\<close> is the number that
  \<open>getSummary\<close> reads from a stored trade.
\<close>

definition advancing :: "execution \<Rightarrow> bool" where
  "advancing e = (execution.status e = ''success'' \<and> execution.pnl e \<noteq> None)"

definition net_profit :: "host \<Rightarrow> execution \<Rightarrow> jsnum" where
  "net_profit h e = (case execution.pnl e of Some p \<Rightarrow> parseFloat h (netProfitEth p) | None \<Rightarrow> NaN)"

fun record_all :: "host \<Rightarrow> (int \<times> execution) list \<Rightarrow> tracker \<times> store \<Rightarrow> tracker \<times> store" where
  "record_all h [] ts = ts"
| "record_all h (ne # es) ts = record_all h es (snd (recordTrade h (fst ne) (snd ne) ts))"

definition trade_profit :: "host \<Rightarrow> trade \<Rightarrow> jsnum option" where
  "trade_profit h tr = map_option (\<lambda>p. parseFloat h (netProfitEth p)) (trade.pnl tr)"


section \<open>Configuration and the outside world\<close>

text \<open>
  The settings of \<open>config/config.js\<close> that the modelled functions read. \<open>bridges\<close> is
  the object \<open>config.bridges\<close>: an entry for each provider that the file configures, with
  its flag \<open>enabled\<close>. The file configures \<open>across\<close> and \<open>socket\<close>.
\<close>

record config =
  minProfitThresholdUSD :: jsnum
  maxSlippagePercent :: jsnum
  priceDeviationThreshold :: jsnum
  flashLoanEnabled :: bool
  maxExposurePerTrade :: int
  gasLimit :: int
  maxFeePerGas :: "int option"
  bridges :: "(string \<times> bool) list"

definition default_config :: config where
  "default_config =
     \<lparr>minProfitThresholdUSD = Num 50, maxSlippagePercent = Num 0.5,
      priceDeviationThreshold = Num 0.5, flashLoanEnabled = True,
      maxExposurePerTrade = 5000000000000000000, gasLimit = 500000,
      maxFeePerGas = Some 30000000000,
      bridges = [(''across'', True), (''socket'', True)]\<rparr>"

text \<open>
  Wallets, exchanges, bridges and the lending pool are outside the repository's core. Each
  request to them is a \<open>call\<close>; the engine keeps the list of the calls made so far, and the
  world answers a request as a function of that list and of the request, so that the same
  request can be answered differently at different times. \<open>flashLoanState\<close> is the
  module-level variable of \<open>utils/defi.js\<close>.
\<close>

datatype call =
    CheckWalletBalances
  | GetSigner network
  | ExecuteSwap network address address int
  | BridgeTokens network network address int address
  | ExecuteFlashLoan network address int
  | EstimateSwapGasCost network address address int
  | GetBridgeFee network network address int
  | GetTokenPrice address network

record tx_receipt =
  status :: int
  gasUsed :: int
  effectiveGasPrice :: int

record world =
  clock :: "call list \<Rightarrow> int"
  wallet_balances :: "call list \<Rightarrow> (network \<times> balance) list"
  signer_address :: "call list \<Rightarrow> network \<Rightarrow> error + address"
  swap_tx :: "call list \<Rightarrow> network \<Rightarrow> address \<Rightarrow> address \<Rightarrow> int \<Rightarrow> jsnum \<Rightarrow> error + string \<times> tx_receipt"
  bridge_tx :: "call list \<Rightarrow> network \<Rightarrow> network \<Rightarrow> address \<Rightarrow> int \<Rightarrow> address \<Rightarrow> error + string \<times> tx_receipt"
  flash_tx :: "call list \<Rightarrow> network \<Rightarrow> address \<Rightarrow> int \<Rightarrow> error + string \<times> tx_receipt"
  swap_gas :: "call list \<Rightarrow> network \<Rightarrow> address \<Rightarrow> address \<Rightarrow> int \<Rightarrow> error + gas_estimate"
  bridge_fee :: "call list \<Rightarrow> network \<Rightarrow> network \<Rightarrow> address \<Rightarrow> int \<Rightarrow> error + int"
  token_price :: "call list \<Rightarrow> address \<Rightarrow> network \<Rightarrow> error + price"

record engine =
  log :: "call list"
  flashLoanState :: nat

definition called :: "call \<Rightarrow> engine \<Rightarrow> engine" where
  "called c st = st\<lparr>log := log st @ [c]\<rparr>"

definition AddressZero :: address where
  "AddressZero = ''0x0000000000000000000000000000000000000000''"

text \<open>
  \<open>web3Utils.waitForTransaction\<close> returns the receipt when its status is 1 and throws
  otherwise.
\<close>

definition waitForTransaction :: "string \<Rightarrow> tx_receipt \<Rightarrow> error + tx_receipt" where
  "waitForTransaction tx rc =
     (if tx_receipt.status rc = 1 then Inr rc
      else Inl (Error (''Transaction '' @ tx @ '' failed'')))"

text \<open>
  \<open>swapper.executeSwap\<close>. \<open>swap_tx\<close> stands for everything up to the receipt that the
  provider delivers: the quotes, the approval, the submission. The connector then waits for
  the transaction and derives the status string from the receipt; the swapper passes the
  connector's fields on. The result has no \<open>inputAmount\<close> and no \<open>outputAmount\<close>.
\<close>

record swap_result =
  txHash :: string
  receipt :: "tx_receipt option"
  status :: string
  inputAmount :: "int option"
  outputAmount :: "int option"

definition executeSwap ::
  "world \<Rightarrow> network \<Rightarrow> address \<Rightarrow> address \<Rightarrow> int \<Rightarrow> jsnum \<Rightarrow> engine \<Rightarrow> (error + swap_result) \<times> engine" where
  "executeSwap w net fromToken toToken amt maxSlippage st =
     (let r = (case swap_tx w (log st) net fromToken toToken amt maxSlippage of
                 Inl e \<Rightarrow> Inl e
               | Inr (h, rc) \<Rightarrow>
                   (case waitForTransaction h rc of
                      Inl e \<Rightarrow> Inl e
                    | Inr rc' \<Rightarrow>
                        Inr \<lparr>swap_result.txHash = h, swap_result.receipt = Some rc',
                             swap_result.status =
                               (if tx_receipt.status rc' = 1 then ''success'' else ''failed''),
                             swap_result.inputAmount = None, swap_result.outputAmount = None\<rparr>))
      in (r, called (ExecuteSwap net fromToken toToken amt) st))"

text \<open>
  \<open>bridgesUtils.bridgeTokens\<close>. \<open>bridge_tx\<close> stands for the token check, the choice
  between Socket and Across with its fallback, and the submission; both providers wait for
  the transaction and return the literal status \<open>success\<close>.
\<close>

record bridge_result =
  txHash :: string
  receipt :: "tx_receipt option"
  status :: string

definition bridgeTokens ::
  "world \<Rightarrow> network \<Rightarrow> network \<Rightarrow> address \<Rightarrow> int \<Rightarrow> address \<Rightarrow> engine \<Rightarrow> (error + bridge_result) \<times> engine" where
  "bridgeTokens w src dst tokenAddress amt recipient st =
     (let r = (case bridge_tx w (log st) src dst tokenAddress amt recipient of
                 Inl e \<Rightarrow> Inl e
               | Inr (h, rc) \<Rightarrow>
                   (case waitForTransaction h rc of
                      Inl e \<Rightarrow> Inl e
                    | Inr rc' \<Rightarrow>
                        Inr \<lparr>bridge_result.txHash = h, bridge_result.receipt = Some rc',
                             bridge_result.status = ''success''\<rparr>))
      in (r, called (BridgeTokens src dst tokenAddress amt recipient) st))"

definition checkWalletBalances :: "world \<Rightarrow> engine \<Rightarrow> (network \<times> balance) list \<times> engine" where
  "checkWalletBalances w st = (wallet_balances w (log st), called CheckWalletBalances st)"

definition getSigner :: "world \<Rightarrow> network \<Rightarrow> engine \<Rightarrow> (error + address) \<times> engine" where
  "getSigner w net st = (signer_address w (log st) net, called (GetSigner net) st)"

text \<open>An object's property: the first entry with the key.\<close>

definition js_get :: "(string \<times> 'a) list \<Rightarrow> string \<Rightarrow> 'a option" where
  "js_get obj k = map_of obj k"

definition token_address :: "token \<Rightarrow> network \<Rightarrow> address" where
  "token_address t net = (case js_get (addresses t) net of Some a \<Rightarrow> a | None \<Rightarrow> [])"

section \<open>The calculator's \<open>calculatePnL\<close>\<close>

definition calculatePnL :: "host \<Rightarrow> int \<Rightarrow> int \<Rightarrow> int \<Rightarrow> error + pnl" where
  "calculatePnL h startWei endWei gasWei =
     (let grossWei = endWei - startWei;
          netWei = grossWei - gasWei;
          r = (if startWei > 0
               then (case bn_div (netWei * 10000) startWei of
                       Inl e \<Rightarrow> Inl e
                     | Inr q \<Rightarrow>
                         (case bn_toNumber q of
                            Inl e \<Rightarrow> Inl e
                          | Inr x \<Rightarrow> Inr (js_div x (Num 100))))
               else Inr (Num 0))
      in case r of
           Inl e \<Rightarrow> Inl e
         | Inr pct \<Rightarrow>
             Inr \<lparr>startingBalanceWei = startWei,
                  startingBalanceEth = formatEther h startWei,
                  endingBalanceWei = endWei,
                  endingBalanceEth = formatEther h endWei,
                  grossProfitWei = grossWei,
                  grossProfitEth = formatEther h grossWei,
                  gasUsedWei = gasWei,
                  gasUsedEth = formatEther h gasWei,
                  netProfitWei = netWei,
                  netProfitEth = formatEther h netWei,
                  pnl.roi = num_toString h pct @ ''%'',
                  isProfit = (netWei > 0)\<rparr>)"

section \<open>The execution engine: \<open>executeArbitrageStrategy\<close>\<close>

text \<open>A step as it is pushed: in progress, with its start time.\<close>

definition new_step :: "nat \<Rightarrow> string \<Rightarrow> network \<Rightarrow> int \<Rightarrow> exec_step" where
  "new_step n act net t =
     \<lparr>exec_step.step = n, exec_step.action = act, exec_step.network = net,
      exec_step.status = ''in_progress'', exec_step.startTime = t, exec_step.endTime = None,
      exec_step.txHash = None, exec_step.inputAmount = None, exec_step.outputAmount = None,
      exec_step.amount = None,
      exec_step.error = None, exec_step.details = None, exec_step.flashLoan = None\<rparr>"

text \<open>The gas that a receipt accounts for: \<open>gasUsed\<close> times \<open>effectiveGasPrice\<close>.\<close>

definition receipt_gas :: "tx_receipt option \<Rightarrow> error + int" where
  "receipt_gas rc =
     (case rc of
        None \<Rightarrow> Inl (Error ''Cannot read properties of undefined'')
      | Some r \<Rightarrow> Inr (gasUsed r * effectiveGasPrice r))"

text \<open>
  The four \<open>try\<close> blocks. Each returns the exception it throws or the gas it adds to
  \<open>totalGasUsed\<close>, together with the step as the block leaves it and the engine's state.
\<close>

definition buy_try ::
  "host \<Rightarrow> config \<Rightarrow> world \<Rightarrow> strategy \<Rightarrow> bool \<Rightarrow> exec_step \<Rightarrow> engine \<Rightarrow>
   (error + int) \<times> exec_step \<times> engine" where
  "buy_try h cfg w strat simulate buyStep st =
     (let opp = opportunity strat;
          tokenAddressBuy = token_address (opportunity.token opp) (opportunity.buyNetwork opp);
          buyStep1 =
            (if useFlashLoan strat \<and> \<not> simulate
             then buyStep\<lparr>exec_step.details :=
                            Some (''Using flash loan to buy '' @ formatEther h (strategy.tradeSize strat)
                                  @ '' ETH of '' @ symbol (opportunity.token opp)),
                          exec_step.flashLoan := Some True\<rparr>
             else buyStep);
          (swapResult, st1) =
            (if simulate
             then (Inr \<lparr>swap_result.txHash = ''0xsimulated_buy_transaction'',
                        swap_result.receipt = None,
                        swap_result.status = ''success'',
                        swap_result.inputAmount = Some (strategy.tradeSize strat),
                        swap_result.outputAmount =
                          Some (expectedBuyAmountWei (profitability opp))\<rparr>, st)
             else executeSwap w (opportunity.buyNetwork opp) AddressZero tokenAddressBuy
                    (strategy.tradeSize strat) (maxSlippagePercent cfg) st)
      in case swapResult of
           Inl e \<Rightarrow> (Inl e, buyStep1, st1)
         | Inr res \<Rightarrow>
             (case (if simulate then Inr 0 else receipt_gas (swap_result.receipt res)) of
                Inl e \<Rightarrow> (Inl e, buyStep1, st1)
              | Inr gas \<Rightarrow>
                  (Inr gas,
                   buyStep1\<lparr>exec_step.txHash := Some (swap_result.txHash res),
                            exec_step.status := swap_result.status res,
                            exec_step.inputAmount := Some (formatEther h
                              (case swap_result.inputAmount res of
                                 Some a \<Rightarrow> a | None \<Rightarrow> strategy.tradeSize strat)),
                            exec_step.outputAmount := Some (formatEther h
                              (case swap_result.outputAmount res of
                                 Some a \<Rightarrow> a | None \<Rightarrow> expectedBuyAmountWei (profitability opp))),
                            exec_step.endTime := Some (clock w (log st1))\<rparr>,
                   st1)))"

definition bridge_try ::
  "host \<Rightarrow> config \<Rightarrow> world \<Rightarrow> strategy \<Rightarrow> bool \<Rightarrow> exec_step \<Rightarrow> engine \<Rightarrow>
   (error + int) \<times> exec_step \<times> engine" where
  "bridge_try h cfg w strat simulate bridgeStep st =
     (let opp = opportunity strat;
          tokenAddressBuy = token_address (opportunity.token opp) (opportunity.buyNetwork opp);
          (signer, st1) = getSigner w (opportunity.sellNetwork opp) st
      in case signer of
           Inl e \<Rightarrow> (Inl e, bridgeStep, st1)
         | Inr recipient \<Rightarrow>
             (let (bridgeResult, st2) =
                    (if simulate
                     then (Inr \<lparr>bridge_result.txHash = ''0xsimulated_bridge_transaction'',
                                bridge_result.receipt = None,
                                bridge_result.status = ''success''\<rparr>, st1)
                     else bridgeTokens w (opportunity.buyNetwork opp) (opportunity.sellNetwork opp)
                            tokenAddressBuy (expectedBuyAmountWei (profitability opp)) recipient st1)
              in case bridgeResult of
                   Inl e \<Rightarrow> (Inl e, bridgeStep, st2)
                 | Inr res \<Rightarrow>
                     (case (if simulate then Inr 0 else receipt_gas (bridge_result.receipt res)) of
                        Inl e \<Rightarrow> (Inl e, bridgeStep, st2)
                      | Inr gas \<Rightarrow>
                          (Inr gas,
                           bridgeStep\<lparr>exec_step.txHash := Some (bridge_result.txHash res),
                                      exec_step.status := bridge_result.status res,
                                      exec_step.amount := Some (formatEther h (expectedBuyAmountWei (profitability opp))),
                                      exec_step.endTime := Some (clock w (log st2))\<rparr>,
                           st2))))"

definition sell_try ::
  "host \<Rightarrow> config \<Rightarrow> world \<Rightarrow> strategy \<Rightarrow> bool \<Rightarrow> exec_step \<Rightarrow> engine \<Rightarrow>
   (error + int) \<times> exec_step \<times> engine" where
  "sell_try h cfg w strat simulate sellStep st =
     (let opp = opportunity strat;
          tokenAddressSell = token_address (opportunity.token opp) (opportunity.sellNetwork opp);
          (swapResult, st1) =
            (if simulate
             then (Inr \<lparr>swap_result.txHash = ''0xsimulated_sell_transaction'',
                        swap_result.receipt = None,
                        swap_result.status = ''success'',
                        swap_result.inputAmount = Some (expectedSellAmountWei (profitability opp)),
                        swap_result.outputAmount =
                          Some (expectedEthFromSellWei (profitability opp))\<rparr>, st)
             else executeSwap w (opportunity.sellNetwork opp) tokenAddressSell AddressZero
                    (expectedSellAmountWei (profitability opp)) (maxSlippagePercent cfg) st)
      in case swapResult of
           Inl e \<Rightarrow> (Inl e, sellStep, st1)
         | Inr res \<Rightarrow>
             (case (if simulate then Inr 0 else receipt_gas (swap_result.receipt res)) of
                Inl e \<Rightarrow> (Inl e, sellStep, st1)
              | Inr gas \<Rightarrow>
                  (Inr gas,
                   sellStep\<lparr>exec_step.txHash := Some (swap_result.txHash res),
                            exec_step.status := swap_result.status res,
                            exec_step.inputAmount := Some (formatEther h
                              (case swap_result.inputAmount res of
                                 Some a \<Rightarrow> a | None \<Rightarrow> expectedSellAmountWei (profitability opp))),
                            exec_step.outputAmount := Some (formatEther h
                              (case swap_result.outputAmount res of
                                 Some a \<Rightarrow> a | None \<Rightarrow> expectedEthFromSellWei (profitability opp))),
                            exec_step.endTime := Some (clock w (log st1))\<rparr>,
                   st1)))"

definition bridgeBack_try ::
  "host \<Rightarrow> config \<Rightarrow> world \<Rightarrow> strategy \<Rightarrow> bool \<Rightarrow> exec_step \<Rightarrow> engine \<Rightarrow>
   (error + int) \<times> exec_step \<times> engine" where
  "bridgeBack_try h cfg w strat simulate bridgeBackStep st =
     (let opp = opportunity strat;
          (signer, st1) = getSigner w (opportunity.buyNetwork opp) st
      in case signer of
           Inl e \<Rightarrow> (Inl e, bridgeBackStep, st1)
         | Inr recipient \<Rightarrow>
             (let (bridgeResult, st2) =
                    (if simulate
                     then (Inr \<lparr>bridge_result.txHash = ''0xsimulated_bridge_back_transaction'',
                                bridge_result.receipt = None,
                                bridge_result.status = ''success''\<rparr>, st1)
                     else bridgeTokens w (opportunity.sellNetwork opp) (opportunity.buyNetwork opp)
                            AddressZero (expectedEthFromSellWei (profitability opp)) recipient st1)
              in case bridgeResult of
                   Inl e \<Rightarrow> (Inl e, bridgeBackStep, st2)
                 | Inr res \<Rightarrow>
                     (case (if simulate then Inr 0 else receipt_gas (bridge_result.receipt res)) of
                        Inl e \<Rightarrow> (Inl e, bridgeBackStep, st2)
                      | Inr gas \<Rightarrow>
                          (Inr gas,
                           bridgeBackStep\<lparr>exec_step.txHash := Some (bridge_result.txHash res),
                                          exec_step.status := bridge_result.status res,
                                          exec_step.amount := Some (formatEther h (expectedEthFromSellWei (profitability opp))),
                                          exec_step.endTime := Some (clock w (log st2))\<rparr>,
                           st2))))"

text \<open>
  The four \<open>catch\<close> blocks differ in the step number only: the step gets status
  \<open>failed\<close> and the message, the execution gets status \<open>failed\<close> and the message behind
  \<open>Failed at step n:\<close>, and the execution is returned. \<open>pushed\<close> are the earlier steps.
\<close>

definition step_catch ::
  "world \<Rightarrow> string \<Rightarrow> error \<Rightarrow> exec_step list \<Rightarrow> exec_step \<Rightarrow> execution \<Rightarrow> engine \<Rightarrow> execution" where
  "step_catch w n e pushed cur execution st =
     execution
       \<lparr>execution.steps :=
          Some (pushed @ [cur\<lparr>exec_step.status := ''failed'', exec_step.error := Some (message e),
                           exec_step.endTime := Some (clock w (log st))\<rparr>]),
        execution.status := ''failed'',
        execution.error := Some (''Failed at step '' @ n @ '': '' @ message e),
        execution.endTime := Some (clock w (log st))\<rparr>"

text \<open>The object that the outer \<open>catch\<close> returns: it has no steps.\<close>

definition outer_catch :: "world \<Rightarrow> strategy \<Rightarrow> error \<Rightarrow> engine \<Rightarrow> execution" where
  "outer_catch w strat e st =
     \<lparr>strategy = strat, execution.startTime = clock w (log st),
      execution.endTime = Some (clock w (log st)), execution.steps = None,
      execution.status = ''failed'', execution.error = Some (message e), execution.pnl = None,
      startBalances = None, endBalances = None, totalGasUsed = None,
      execution.durationMs = None, execution.flashLoan = None, flashLoanTxHash = None,
      flashLoanAmount = None, flashLoanProfit = None, execution.profit = None\<rparr>"

text \<open>The balance string of a network, \<open>balances[network]?.eth || '0'\<close>.\<close>

definition eth_of :: "(network \<times> balance) list \<Rightarrow> network \<Rightarrow> string" where
  "eth_of balances net =
     (case js_get balances net of
        None \<Rightarrow> ''0''
      | Some b \<Rightarrow> if eth b = [] then ''0'' else eth b)"

text \<open>After the fourth step: the closing balances, the PnL and the success.\<close>

definition finish_execution ::
  "host \<Rightarrow> world \<Rightarrow> strategy \<Rightarrow> (network \<times> balance) list \<Rightarrow> int \<Rightarrow> execution \<Rightarrow> engine \<Rightarrow>
   execution \<times> engine" where
  "finish_execution h w strat startBal gasTotal execution st =
     (let (endBalances, st1) = checkWalletBalances w st;
          net = opportunity.buyNetwork (opportunity strat);
          r = (case parseEther h (eth_of startBal net) of
                 Inl e \<Rightarrow> Inl e
               | Inr startBalanceWei \<Rightarrow>
                   (case parseEther h (eth_of endBalances net) of
                      Inl e \<Rightarrow> Inl e
                    | Inr endBalanceWei \<Rightarrow> calculatePnL h startBalanceWei endBalanceWei gasTotal))
      in case r of
           Inl e \<Rightarrow> (outer_catch w strat e st1, st1)
         | Inr p \<Rightarrow>
             (execution
                \<lparr>endBalances := Some endBalances, execution.pnl := Some p,
                 execution.status := ''success'',
                 execution.endTime := Some (clock w (log st1)),
                 totalGasUsed := Some (formatEther h gasTotal),
                 execution.durationMs := Some (clock w (log st1) - execution.startTime execution)\<rparr>,
              st1))"

definition executeArbitrageStrategy ::
  "host \<Rightarrow> config \<Rightarrow> world \<Rightarrow> strategy \<Rightarrow> bool \<Rightarrow> engine \<Rightarrow> execution \<times> engine" where
  "executeArbitrageStrategy h cfg w strat simulate st =
     (let opp = opportunity strat;
          execution0 =
            \<lparr>strategy = strat, execution.startTime = clock w (log st),
             execution.endTime = None, execution.steps = Some [],
             execution.status = ''in_progress'', execution.error = None, execution.pnl = None,
             startBalances = None, endBalances = None, totalGasUsed = None,
             execution.durationMs = None, execution.flashLoan = None, flashLoanTxHash = None,
             flashLoanAmount = None, flashLoanProfit = None, execution.profit = None\<rparr>;
          (startBalances, st0) = checkWalletBalances w st;
          execution = execution0\<lparr>startBalances := Some startBalances\<rparr>;
          (r1, buyStep, st1) =
            buy_try h cfg w strat simulate
              (new_step 1 ''Buy LSD'' (opportunity.buyNetwork opp) (clock w (log st0))) st0
      in case r1 of
           Inl e \<Rightarrow> (step_catch w ''1'' e [] buyStep execution st1, st1)
         | Inr gas1 \<Rightarrow>
      (let (r2, bridgeStep, st2) =
             bridge_try h cfg w strat simulate
               (new_step 2 ''Bridge LSD'' (opportunity.buyNetwork opp) (clock w (log st1))) st1
       in case r2 of
            Inl e \<Rightarrow> (step_catch w ''2'' e [buyStep] bridgeStep execution st2, st2)
          | Inr gas2 \<Rightarrow>
      (let (r3, sellStep, st3) =
             sell_try h cfg w strat simulate
               (new_step 3 ''Sell LSD'' (opportunity.sellNetwork opp) (clock w (log st2))) st2
       in case r3 of
            Inl e \<Rightarrow> (step_catch w ''3'' e [buyStep, bridgeStep] sellStep execution st3, st3)
          | Inr gas3 \<Rightarrow>
      (let (r4, bridgeBackStep, st4) =
             bridgeBack_try h cfg w strat simulate
               (new_step 4 ''Bridge ETH back'' (opportunity.sellNetwork opp) (clock w (log st3))) st3
       in case r4 of
            Inl e \<Rightarrow>
              (step_catch w ''4'' e [buyStep, bridgeStep, sellStep] bridgeBackStep execution st4, st4)
          | Inr gas4 \<Rightarrow>
              finish_execution h w strat startBalances (0 + gas1 + gas2 + gas3 + gas4)
                (execution\<lparr>execution.steps :=
                   Some [buyStep, bridgeStep, sellStep, bridgeBackStep]\<rparr>) st4))))"

text \<open>
  To state which step fails: \<open>first_failure\<close> runs the four \<open>try\<close> blocks in the order of
  the source and returns the number of the first one that throws, with the exception and
  the engine's state when the block is left; \<open>None\<close> when none throws.
\<close>

definition first_failure ::
  "host \<Rightarrow> config \<Rightarrow> world \<Rightarrow> strategy \<Rightarrow> bool \<Rightarrow> engine \<Rightarrow> (nat \<times> error \<times> engine) option" where
  "first_failure h cfg w strat simulate st =
     (let opp = opportunity strat;
          (startBalances, st0) = checkWalletBalances w st;
          (r1, buyStep, st1) =
            buy_try h cfg w strat simulate
              (new_step 1 ''Buy LSD'' (opportunity.buyNetwork opp) (clock w (log st0))) st0
      in case r1 of
           Inl e \<Rightarrow> Some (1, e, st1)
         | Inr gas1 \<Rightarrow>
      (let (r2, bridgeStep, st2) =
             bridge_try h cfg w strat simulate
               (new_step 2 ''Bridge LSD'' (opportunity.buyNetwork opp) (clock w (log st1))) st1
       in case r2 of
            Inl e \<Rightarrow> Some (2, e, st2)
          | Inr gas2 \<Rightarrow>
      (let (r3, sellStep, st3) =
             sell_try h cfg w strat simulate
               (new_step 3 ''Sell LSD'' (opportunity.sellNetwork opp) (clock w (log st2))) st2
       in case r3 of
            Inl e \<Rightarrow> Some (3, e, st3)
          | Inr gas3 \<Rightarrow>
      (let (r4, bridgeBackStep, st4) =
             bridgeBack_try h cfg w strat simulate
               (new_step 4 ''Bridge ETH back'' (opportunity.sellNetwork opp) (clock w (log st3))) st3
       in case r4 of
            Inl e \<Rightarrow> Some (4, e, st4)
          | Inr gas4 \<Rightarrow> None))))"

text \<open>The requests that a run has added to the log, and the swaps and transfers among them.\<close>

definition new_calls :: "engine \<Rightarrow> engine \<Rightarrow> call list" where
  "new_calls before after = drop (length (log before)) (log after)"

fun is_swap :: "call \<Rightarrow> bool" where
  "is_swap (ExecuteSwap net a b amt) = True"
| "is_swap c = False"

fun is_bridge :: "call \<Rightarrow> bool" where
  "is_bridge (BridgeTokens src dst a amt r) = True"
| "is_bridge c = False"

definition step_name :: "nat \<Rightarrow> string" where
  "step_name k = (if k = 1 then ''1'' else if k = 2 then ''2'' else if k = 3 then ''3'' else ''4'')"

text \<open>
  What the claim says of a run that fails at step \<open>k\<close> with exception \<open>e\<close>: status
  \<open>failed\<close>, the message recorded on the execution, exactly \<open>k\<close> steps, the earlier ones
  successful, the last one failed with the message.
\<close>

definition failure_report :: "nat \<Rightarrow> error \<Rightarrow> execution \<Rightarrow> bool" where
  "failure_report k e ex =
     (execution.status ex = ''failed'' \<and>
      execution.error ex = Some (''Failed at step '' @ step_name k @ '': '' @ message e) \<and>
      (case execution.steps ex of
         None \<Rightarrow> False
       | Some ss \<Rightarrow>
           length ss = k \<and>
           (\<forall>i < k - 1. exec_step.status (ss ! i) = ''success'') \<and>
           exec_step.status (ss ! (k - 1)) = ''failed'' \<and>
           exec_step.error (ss ! (k - 1)) = Some (message e)))"


section \<open>The flash-loan path\<close>



record callback_result =
  success :: bool
  profit :: "int option"
  error :: "string option"



record flash_result =
  txHash :: string
  receipt :: "tx_receipt option"
  callbackResult :: callback_result
  status :: string





section \<open>The profitability calculator\<close>

text \<open>
  \<open>swapper.estimateSwapGasCost\<close> catches every failure of its quote and of the provider's
  estimate (\<open>swap_gas\<close>) and returns the default estimate, the gas limit at the configured
  fee. The calculator's \<open>estimateGasCost\<close> wraps it in a second \<open>try\<close> with the same
  default; as the swapper's function does not throw, the two agree.
\<close>

definition default_gas_estimate :: "host \<Rightarrow> config \<Rightarrow> gas_estimate" where
  "default_gas_estimate h cfg =
     (let price = (case maxFeePerGas cfg of Some g \<Rightarrow> g | None \<Rightarrow> 30000000000);
          cost = gasLimit cfg * price
      in \<lparr>gasEstimate = gasLimit cfg, gasCost = cost, gasCostEth = formatEther h cost\<rparr>)"

definition estimateSwapGasCost ::
  "host \<Rightarrow> config \<Rightarrow> world \<Rightarrow> network \<Rightarrow> address \<Rightarrow> address \<Rightarrow> int \<Rightarrow> engine \<Rightarrow>
   gas_estimate \<times> engine" where
  "estimateSwapGasCost h cfg w net fromToken toToken amt st =
     ((case swap_gas w (log st) net fromToken toToken amt of
         Inl e \<Rightarrow> default_gas_estimate h cfg
       | Inr g \<Rightarrow> g),
      called (EstimateSwapGasCost net fromToken toToken amt) st)"

definition estimateGasCost ::
  "host \<Rightarrow> config \<Rightarrow> world \<Rightarrow> network \<Rightarrow> address \<Rightarrow> address \<Rightarrow> int \<Rightarrow> engine \<Rightarrow>
   gas_estimate \<times> engine" where
  "estimateGasCost h cfg w net fromToken toToken amt st =
     estimateSwapGasCost h cfg w net fromToken toToken amt st"

text \<open>
  \<open>bridgesUtils.getBridgeFee\<close> returns the fee of a provider (\<open>bridge_fee\<close>: Socket, then
  Across) and, when none answers, 0.5 percent of the amount. It does not throw.
\<close>

definition getBridgeFee ::
  "world \<Rightarrow> network \<Rightarrow> network \<Rightarrow> address \<Rightarrow> int \<Rightarrow> engine \<Rightarrow> int \<times> engine" where
  "getBridgeFee w src dst tokenAddress amt st =
     ((case bridge_fee w (log st) src dst tokenAddress amt of
         Inl e \<Rightarrow> bn_quot (amt * 5) 1000
       | Inr fee \<Rightarrow> fee),
      called (GetBridgeFee src dst tokenAddress amt) st)"

text \<open>
  \<open>calculateOptimalTradeSize\<close>. The two prices arrive as numbers, and \<open>parseFloat\<close> of a
  number is that number. The four costs arrive as big numbers and are converted through
  \<open>formatEther\<close> and \<open>parseFloat\<close>. The local constants of the source are functions here, so
  that results can name them. The \<open>catch\<close> that returns \<open>'1'\<close> is not reachable: no
  operation of the body throws on arguments of these types.
\<close>

definition wei_to_number :: "host \<Rightarrow> int \<Rightarrow> jsnum" where
  "wei_to_number h v = parseFloat h (formatEther h v)"

definition fixedCosts :: "host \<Rightarrow> int \<Rightarrow> int \<Rightarrow> int \<Rightarrow> jsnum" where
  "fixedCosts h gasCostBuy gasCostSell bridgeBack =
     js_add (js_add (wei_to_number h gasCostBuy) (wei_to_number h gasCostSell))
            (wei_to_number h bridgeBack)"

definition bridgeFeeRatio :: "host \<Rightarrow> jsnum \<Rightarrow> int \<Rightarrow> jsnum" where
  "bridgeFeeRatio h buyPriceEth fee = js_div (wei_to_number h fee) buyPriceEth"

definition priceDiffRatio :: "jsnum \<Rightarrow> jsnum \<Rightarrow> jsnum" where
  "priceDiffRatio buyPriceEth sellPriceEth = js_sub (js_div sellPriceEth buyPriceEth) (Num 1)"

definition cappedTradeSize :: "host \<Rightarrow> jsnum \<Rightarrow> jsnum \<Rightarrow> int \<Rightarrow> int \<Rightarrow> int \<Rightarrow> int \<Rightarrow> jsnum" where
  "cappedTradeSize h buyPriceEth sellPriceEth gasCostBuy gasCostSell fee bridgeBack =
     (let optimal =
            js_mul (js_div (fixedCosts h gasCostBuy gasCostSell bridgeBack)
                           (js_sub (priceDiffRatio buyPriceEth sellPriceEth)
                                   (bridgeFeeRatio h buyPriceEth fee)))
                   (Num 50)
      in Math_min optimal (Num 100))"

definition calculateOptimalTradeSize ::
  "host \<Rightarrow> jsnum \<Rightarrow> jsnum \<Rightarrow> int \<Rightarrow> int \<Rightarrow> int \<Rightarrow> int \<Rightarrow> string" where
  "calculateOptimalTradeSize h buyPriceEth sellPriceEth gasCostBuy gasCostSell fee bridgeBack =
     (if js_le (priceDiffRatio buyPriceEth sellPriceEth) (bridgeFeeRatio h buyPriceEth fee)
      then ''0.1''
      else num_toString h
             (cappedTradeSize h buyPriceEth sellPriceEth gasCostBuy gasCostSell fee bridgeBack))"

text \<open>
  \<open>calculateProfitability\<close> returns one of two objects: the short one, with
  \<open>isProfitable: false\<close> and a reason, when the token is not listed on both networks or
  when the body throws, and the full analysis otherwise.
\<close>

datatype calc_result = NotProfitable string | is_Full: Full (the_analysis: analysis)

fun result_isProfitable :: "calc_result \<Rightarrow> bool" where
  "result_isProfitable (NotProfitable r) = False"
| "result_isProfitable (Full a) = isProfitable a"

text \<open>The local constant \<open>profitUsd\<close>.\<close>

definition profitUsd :: "host \<Rightarrow> price \<Rightarrow> int \<Rightarrow> jsnum" where
  "profitUsd h bp v = js_div (js_mul (wei_to_number h v) (priceInUsd bp)) (priceInEth bp)"

text \<open>
  The exceptions of the body come from \<open>parseEther\<close>, from \<open>div\<close> and from \<open>toNumber\<close>.
  \<open>maxExposureEth\<close> is the big number that the finder passes; the source prints it and
  parses the digits as ether. \<open>calc_finish\<close> is the part of the body after the last
  \<open>await\<close>. Parameters of the source that bear the name of a field are shortened here and
  below: \<open>tok\<close>, \<open>bp\<close> and \<open>sp\<close> for the token and the two prices, \<open>strat\<close> for the
  strategy.
\<close>

definition calc_catch :: "error \<Rightarrow> engine \<Rightarrow> calc_result \<times> engine" where
  "calc_catch e st = (NotProfitable (''Error: '' @ message e), st)"

definition calc_finish ::
  "host \<Rightarrow> config \<Rightarrow> price \<Rightarrow> price \<Rightarrow> int \<Rightarrow> gas_estimate \<Rightarrow> int \<Rightarrow> int \<Rightarrow> int \<Rightarrow> int \<Rightarrow>
   gas_estimate \<Rightarrow> int \<Rightarrow> engine \<Rightarrow> calc_result \<times> engine" where
  "calc_finish h cfg bp sp maxExposureWei gasBuy expectedBuyAmount fee expectedSellAmount
     expectedEthFromSell gasSell bridgeBack st =
     (let totalCosts = gasCost gasBuy + gasCost gasSell + bridgeBack;
          profit = expectedEthFromSell - maxExposureWei - totalCosts
      in case bn_div (profit * 10000) maxExposureWei of
           Inl e \<Rightarrow> calc_catch e st
         | Inr q \<Rightarrow>
             (case bn_toNumber q of
                Inl e \<Rightarrow> calc_catch e st
              | Inr x \<Rightarrow>
                  (let pct = js_div x (Num 100);
                       usd = profitUsd h bp profit;
                       optimal = calculateOptimalTradeSize h (priceInEth bp) (priceInEth sp)
                                   (gasCost gasBuy) (gasCost gasSell) fee bridgeBack;
                       profitable = (profit > 0 \<and> js_ge usd (minProfitThresholdUSD cfg))
                   in (Full
                        \<lparr>isProfitable = profitable,
                         priceDiffPercentage =
                           js_mul (js_div (js_sub (priceInEth sp) (priceInEth bp)) (priceInEth bp))
                                  (Num 100),
                         expectedBuyAmountWei = expectedBuyAmount,
                         expectedBuyAmountToken = formatEther h expectedBuyAmount,
                         expectedSellAmountWei = expectedSellAmount,
                         expectedSellAmountToken = formatEther h expectedSellAmount,
                         expectedEthFromSellWei = expectedEthFromSell,
                         expectedEthFromSellETH = formatEther h expectedEthFromSell,
                         estimatedGasCostBuy = gasBuy,
                         estimatedGasCostSell = gasSell,
                         analysis.bridgeFee = formatEther h fee,
                         bridgeBackFee = formatEther h bridgeBack,
                         totalCostsWei = totalCosts,
                         totalCostsETH = formatEther h totalCosts,
                         analysis.estimatedProfitWei = profit,
                         analysis.estimatedProfitETH = formatEther h profit,
                         analysis.estimatedProfitUSD = toFixed h 2 usd,
                         analysis.estimatedROI = pct,
                         optimalTradeSize = optimal,
                         reason = (if profitable then ''Profitable''
                                   else ''Not enough profit after costs'')\<rparr>,
                       st))))"

definition calculateProfitability ::
  "host \<Rightarrow> config \<Rightarrow> world \<Rightarrow> token \<Rightarrow> network \<Rightarrow> network \<Rightarrow> price \<Rightarrow> price \<Rightarrow> int \<Rightarrow>
   engine \<Rightarrow> calc_result \<times> engine" where
  "calculateProfitability h cfg w tok buyNet sellNet bp sp maxExposureEth st =
     (let tokenAddressBuy = token_address tok buyNet;
          tokenAddressSell = token_address tok sellNet
      in if tokenAddressBuy = [] \<or> tokenAddressSell = []
         then (NotProfitable ''Token not available on one of the networks'', st)
         else
      (case parseEther h (bn_toString h maxExposureEth) of
         Inl e \<Rightarrow> calc_catch e st
       | Inr maxExposureWei \<Rightarrow>
      (let (gasBuy, st1) =
             estimateGasCost h cfg w buyNet AddressZero tokenAddressBuy maxExposureWei st;
           slippageMultiplier = js_div (js_sub (Num 100) (maxSlippagePercent cfg)) (Num 100)
       in case parseEther h (num_toString h slippageMultiplier) of
            Inl e \<Rightarrow> calc_catch e st1
          | Inr slip \<Rightarrow>
      (case parseEther h (num_toString h (priceInEth bp)) of
         Inl e \<Rightarrow> calc_catch e st1
       | Inr buyWei \<Rightarrow>
      (case bn_div (maxExposureWei * slip) buyWei of
         Inl e \<Rightarrow> calc_catch e st1
       | Inr expectedBuyAmount \<Rightarrow>
      (let (fee, st2) = getBridgeFee w buyNet sellNet tokenAddressBuy expectedBuyAmount st1;
           expectedSellAmount = expectedBuyAmount - fee
       in case parseEther h (num_toString h (priceInEth sp)) of
            Inl e \<Rightarrow> calc_catch e st2
          | Inr sellWei \<Rightarrow>
      (case parseEther h ''1'' of
         Inl e \<Rightarrow> calc_catch e st2
       | Inr one \<Rightarrow>
      (case bn_div (expectedSellAmount * sellWei) one of
         Inl e \<Rightarrow> calc_catch e st2
       | Inr expectedEthFromSell \<Rightarrow>
      (let (gasSell, st3) =
             estimateGasCost h cfg w sellNet tokenAddressSell AddressZero expectedSellAmount st2;
           (bridgeBack, st4) =
             getBridgeFee w sellNet buyNet AddressZero expectedEthFromSell st3
       in calc_finish h cfg bp sp maxExposureWei gasBuy expectedBuyAmount fee
            expectedSellAmount expectedEthFromSell gasSell bridgeBack st4)))))))))"


section \<open>The opportunity finder\<close>

text \<open>
  \<open>findCrosschainLSDTokens\<close> keeps the tokens with more than one non-empty address and
  records the networks of these addresses. \<open>lsdTokens\<close> is the list of
  \<open>config/tokens.js\<close>.
\<close>

definition listed_networks :: "token \<Rightarrow> network list" where
  "listed_networks tok = map fst (filter (\<lambda>(net, a). a \<noteq> []) (addresses tok))"

definition findCrosschainLSDTokens :: "token list \<Rightarrow> token list" where
  "findCrosschainLSDTokens lsdTokens =
     concat (map (\<lambda>tok. if length (listed_networks tok) > 1
                          then [tok\<lparr>networks := listed_networks tok\<rparr>] else [])
                 lsdTokens)"

definition getTokenPrice :: "world \<Rightarrow> address \<Rightarrow> network \<Rightarrow> engine \<Rightarrow> (error + price) \<times> engine" where
  "getTokenPrice w tokenAddress net st =
     (token_price w (log st) tokenAddress net, called (GetTokenPrice tokenAddress net) st)"

text \<open>
  \<open>getPricesAcrossChains\<close> fills the object \<open>prices\<close>, one property per network that
  answers. Assigning a property replaces the value of an existing key and appends a new
  key. A network whose query throws is left out; the loop goes on.
\<close>

fun prices_loop ::
  "world \<Rightarrow> token \<Rightarrow> network list \<Rightarrow> (network \<times> price) list \<Rightarrow> engine \<Rightarrow>
   (network \<times> price) list \<times> engine" where
  "prices_loop w tok [] prices st = (prices, st)"
| "prices_loop w tok (net # nets) prices st =
     (let tokenAddress = token_address tok net
      in if tokenAddress = [] then prices_loop w tok nets prices st
         else
           (let (r, st1) = getTokenPrice w tokenAddress net st
            in case r of
                 Inl e \<Rightarrow> prices_loop w tok nets prices st1
               | Inr p \<Rightarrow> prices_loop w tok nets (AList.update net p prices) st1))"

definition getPricesAcrossChains ::
  "world \<Rightarrow> token \<Rightarrow> engine \<Rightarrow> (network \<times> price) list \<times> engine" where
  "getPricesAcrossChains w tok st = prices_loop w tok (networks tok) [] st"

text \<open>
  The two nested loops of \<open>findArbitrageOpportunities\<close> visit the pairs of entries with
  \<open>i < j\<close>, in this order.
\<close>

fun pairs :: "'a list \<Rightarrow> ('a \<times> 'a) list" where
  "pairs [] = []"
| "pairs (x # xs) = map (Pair x) xs @ pairs xs"

text \<open>
  The body of the inner loop; \<open>percentDiff\<close> is its constant \<open>priceDiff\<close>. A lookup in \<open>prices\<close> that found nothing would hand
  \<open>undefined\<close> to the calculator, whose first access to the price throws inside its
  \<open>try\<close>.
\<close>

definition percentDiff :: "price \<Rightarrow> price \<Rightarrow> jsnum" where
  "percentDiff sourcePrice targetPrice =
     js_mul (js_div (js_sub (priceInEth targetPrice) (priceInEth sourcePrice))
                    (priceInEth sourcePrice)) (Num 100)"

definition check_pair ::
  "host \<Rightarrow> config \<Rightarrow> world \<Rightarrow> token \<Rightarrow> (network \<times> price) list \<Rightarrow>
   (network \<times> price) \<times> (network \<times> price) \<Rightarrow> opportunity list \<times> engine \<Rightarrow>
   opportunity list \<times> engine" where
  "check_pair h cfg w tok prices entry acc =
     (let ((sourceNetwork, sourcePrice), (targetNetwork, targetPrice)) = entry;
          (found, st) = acc;
          priceDiff = percentDiff sourcePrice targetPrice;
          absPriceDiff = Math_abs priceDiff
      in if js_ge absPriceDiff (priceDeviationThreshold cfg)
         then
           (let buyNet = (if js_lt (priceInEth sourcePrice) (priceInEth targetPrice)
                          then sourceNetwork else targetNetwork);
                sellNet = (if buyNet = sourceNetwork then targetNetwork else sourceNetwork);
                (profitabilityAnalysis, st1) =
                  (case (js_get prices buyNet, js_get prices sellNet) of
                     (Some bp, Some sp) \<Rightarrow>
                       calculateProfitability h cfg w tok buyNet sellNet bp sp
                         (maxExposurePerTrade cfg) st
                   | _ \<Rightarrow> calc_catch (Error ''Cannot read properties of undefined'') st)
            in case (profitabilityAnalysis, js_get prices buyNet, js_get prices sellNet) of
                 (Full a, Some bp, Some sp) \<Rightarrow>
                   if isProfitable a
                   then (found @
                           [\<lparr>opportunity.token = tok, opportunity.buyNetwork = buyNet,
                             opportunity.sellNetwork = sellNet, opportunity.buyPrice = bp,
                             opportunity.sellPrice = sp, priceDifference = priceDiff,
                             profitability = a,
                             opportunity.timestamp = clock w (log st1)\<rparr>], st1)
                   else (found, st1)
               | _ \<Rightarrow> (found, st1))
         else (found, st))"

definition check_token ::
  "host \<Rightarrow> config \<Rightarrow> world \<Rightarrow> opportunity list \<times> engine \<Rightarrow> token \<Rightarrow> opportunity list \<times> engine" where
  "check_token h cfg w acc tok =
     (let (found, st) = acc;
          (prices, st1) = getPricesAcrossChains w tok st
      in foldl (\<lambda>acc entry. check_pair h cfg w tok prices entry acc) (found, st1) (pairs prices))"

text \<open>
  \<open>findArbitrageOpportunities\<close>. Nothing in the body throws, so the outer \<open>catch\<close>, which
  would return the empty list, is not reachable.
\<close>

definition findArbitrageOpportunities ::
  "host \<Rightarrow> config \<Rightarrow> world \<Rightarrow> token list \<Rightarrow> engine \<Rightarrow> opportunity list \<times> engine" where
  "findArbitrageOpportunities h cfg w lsdTokens st =
     foldl (check_token h cfg w) ([], st) (findCrosschainLSDTokens lsdTokens)"

text \<open>
  What the claim says of a returned opportunity: the difference reaches the threshold, the
  analysis is profitable, the buy price is strictly below the sell price, and the two
  networks differ. \<open>quoted\<close> ties the two prices to the two networks: they are the
  entries of the scan's price object.
\<close>

definition well_directed :: "config \<Rightarrow> opportunity \<Rightarrow> bool" where
  "well_directed cfg opp =
     (js_ge (Math_abs (priceDifference opp)) (priceDeviationThreshold cfg) \<and>
      isProfitable (profitability opp) \<and>
      js_lt (priceInEth (opportunity.buyPrice opp)) (priceInEth (opportunity.sellPrice opp)) \<and>
      opportunity.buyNetwork opp \<noteq> opportunity.sellNetwork opp \<and>
      (priceDifference opp = percentDiff (opportunity.buyPrice opp) (opportunity.sellPrice opp) \<or>
       priceDifference opp = percentDiff (opportunity.sellPrice opp) (opportunity.buyPrice opp)))"

definition quoted :: "(network \<times> price) list \<Rightarrow> opportunity \<Rightarrow> bool" where
  "quoted prices opp =
     (js_get prices (opportunity.buyNetwork opp) = Some (opportunity.buyPrice opp) \<and>
      js_get prices (opportunity.sellNetwork opp) = Some (opportunity.sellPrice opp))"

definition sound_opp :: "config \<Rightarrow> world \<Rightarrow> opportunity \<Rightarrow> bool" where
  "sound_opp cfg w opp =
     (well_directed cfg opp \<and>
      (\<exists>st0. quoted (fst (getPricesAcrossChains w (opportunity.token opp) st0)) opp))"

section \<open>The strategy builder\<close>

text \<open>
  \<open>bridgesUtils.getBridgingTime\<close>. It reads \<open>config.bridges.connext.enabled\<close> and
  \<open>config.bridges.across.enabled\<close>; reading \<open>enabled\<close> of a provider that the
  configuration does not have throws a \<open>TypeError\<close>. The two tables are those of the
  source, in minutes. An entry counts when it is truthy; every entry is. Quotation marks
  inside messages are left out.
\<close>

definition bridge_enabled :: "config \<Rightarrow> string \<Rightarrow> error + bool" where
  "bridge_enabled cfg provider =
     (case js_get (bridges cfg) provider of
        None \<Rightarrow> Inl (Error ''Cannot read properties of undefined (reading enabled)'')
      | Some enabled \<Rightarrow> Inr enabled)"

definition connext_times :: "(network \<times> (network \<times> jsnum) list) list" where
  "connext_times =
     [(''ethereum'', [(''arbitrum'', Num 15), (''optimism'', Num 15), (''polygon'', Num 20), (''base'', Num 15)]),
      (''arbitrum'', [(''ethereum'', Num 15), (''optimism'', Num 30), (''polygon'', Num 30), (''base'', Num 30)]),
      (''optimism'', [(''ethereum'', Num 15), (''arbitrum'', Num 30), (''polygon'', Num 30), (''base'', Num 30)]),
      (''polygon'', [(''ethereum'', Num 20), (''arbitrum'', Num 30), (''optimism'', Num 30), (''base'', Num 30)]),
      (''base'', [(''ethereum'', Num 15), (''arbitrum'', Num 30), (''optimism'', Num 30), (''polygon'', Num 30)])]"

definition across_times :: "(network \<times> (network \<times> jsnum) list) list" where
  "across_times =
     [(''ethereum'', [(''arbitrum'', Num 10), (''optimism'', Num 10), (''polygon'', Num 15), (''base'', Num 10)]),
      (''arbitrum'', [(''ethereum'', Num 10), (''optimism'', Num 20), (''polygon'', Num 20), (''base'', Num 20)]),
      (''optimism'', [(''ethereum'', Num 10), (''arbitrum'', Num 20), (''polygon'', Num 20), (''base'', Num 20)]),
      (''polygon'', [(''ethereum'', Num 15), (''arbitrum'', Num 20), (''optimism'', Num 20), (''base'', Num 20)]),
      (''base'', [(''ethereum'', Num 10), (''arbitrum'', Num 20), (''optimism'', Num 20), (''polygon'', Num 20)])]"

definition Number_MAX_VALUE :: jsnum where
  "Number_MAX_VALUE = Num ((2 ^ 53 - 1) * 2 ^ 971)"

definition truthy :: "jsnum \<Rightarrow> bool" where
  "truthy x = (x \<noteq> NaN \<and> x \<noteq> Num 0)"

definition faster ::
  "(network \<times> (network \<times> jsnum) list) list \<Rightarrow> network \<Rightarrow> network \<Rightarrow> jsnum \<Rightarrow> jsnum" where
  "faster tbl src dst fastestTime =
     (case js_get tbl src of
        None \<Rightarrow> fastestTime
      | Some row \<Rightarrow>
          (case js_get row dst of
             None \<Rightarrow> fastestTime
           | Some t \<Rightarrow> if truthy t then Math_min fastestTime t else fastestTime))"

definition getBridgingTime :: "config \<Rightarrow> network \<Rightarrow> network \<Rightarrow> error + jsnum" where
  "getBridgingTime cfg src dst =
     (case bridge_enabled cfg ''connext'' of
        Inl e \<Rightarrow> Inl e
      | Inr connextEnabled \<Rightarrow>
          (let fastest1 = (if connextEnabled then faster connext_times src dst Number_MAX_VALUE
                           else Number_MAX_VALUE)
           in case bridge_enabled cfg ''across'' of
                Inl e \<Rightarrow> Inl e
              | Inr acrossEnabled \<Rightarrow>
                  (let fastest2 = (if acrossEnabled then faster across_times src dst fastest1
                                   else fastest1)
                   in Inr (if fastest2 \<noteq> Number_MAX_VALUE then fastest2 else Num 30))))"

text \<open>
  \<open>getBestArbitrageStrategy\<close>. Both \<open>formatEther(maxExposurePerTrade)\<close> and the
  recommended \<open>optimalTradeSize\<close> are strings. \<open>Math.min\<close> converts its arguments to
  numbers; the relational operator of the flash-loan test, applied to two strings, compares
  them as strings. A failure of \<open>parseEther\<close> or of \<open>getBridgingTime\<close> is caught, logged
  and thrown on to the caller.
\<close>

definition plan ::
  "host \<Rightarrow> opportunity \<Rightarrow> jsnum \<Rightarrow> plan_step list" where
  "plan h opp time =
     [\<lparr>plan_step.step = 1, plan_step.action = ''Buy LSD'',
       plan_step.network = opportunity.buyNetwork opp,
       plan_step.details = ''Buy '' @ symbol (opportunity.token opp) @ '' on ''
          @ opportunity.buyNetwork opp @ '' at ''
          @ num_toString h (priceInEth (opportunity.buyPrice opp)) @ '' ETH''\<rparr>,
      \<lparr>plan_step.step = 2, plan_step.action = ''Bridge LSD'',
       plan_step.network = opportunity.buyNetwork opp,
       plan_step.details = ''Bridge '' @ symbol (opportunity.token opp) @ '' from ''
          @ opportunity.buyNetwork opp @ '' to '' @ opportunity.sellNetwork opp
          @ ''. Estimated time: '' @ num_toString h time @ '' minutes''\<rparr>,
      \<lparr>plan_step.step = 3, plan_step.action = ''Sell LSD'',
       plan_step.network = opportunity.sellNetwork opp,
       plan_step.details = ''Sell '' @ symbol (opportunity.token opp) @ '' on ''
          @ opportunity.sellNetwork opp @ '' at ''
          @ num_toString h (priceInEth (opportunity.sellPrice opp)) @ '' ETH''\<rparr>,
      \<lparr>plan_step.step = 4, plan_step.action = ''Bridge ETH back'',
       plan_step.network = opportunity.sellNetwork opp,
       plan_step.details = ''Bridge ETH from '' @ opportunity.sellNetwork opp @ '' back to ''
          @ opportunity.buyNetwork opp\<rparr>]"

definition getBestArbitrageStrategy ::
  "host \<Rightarrow> config \<Rightarrow> world \<Rightarrow> opportunity \<Rightarrow> engine \<Rightarrow> (error + strategy) \<times> engine" where
  "getBestArbitrageStrategy h cfg w opp st =
     (let tokenAddressBuy = token_address (opportunity.token opp) (opportunity.buyNetwork opp);
          tokenAddressSell = token_address (opportunity.token opp) (opportunity.sellNetwork opp)
      in case parseEther h
                (num_toString h
                   (Math_min (ToNumber h (formatEther h (maxExposurePerTrade cfg)))
                             (ToNumber h (optimalTradeSize (profitability opp))))) of
           Inl e \<Rightarrow> (Inl e, st)
         | Inr maxTradeSize \<Rightarrow>
             (let flash = (flashLoanEnabled cfg \<and>
                           str_gt (optimalTradeSize (profitability opp))
                                  (formatEther h (maxExposurePerTrade cfg)));
                  (gasBuy, st1) =
                    estimateSwapGasCost h cfg w (opportunity.buyNetwork opp) AddressZero
                      tokenAddressBuy maxTradeSize st;
                  (gasSell, st2) =
                    estimateSwapGasCost h cfg w (opportunity.sellNetwork opp) tokenAddressSell
                      AddressZero (expectedSellAmountWei (profitability opp)) st1;
                  (fee, st3) =
                    getBridgeFee w (opportunity.buyNetwork opp) (opportunity.sellNetwork opp)
                      tokenAddressBuy (expectedBuyAmountWei (profitability opp)) st2
              in case getBridgingTime cfg (opportunity.buyNetwork opp) (opportunity.sellNetwork opp) of
                   Inl e \<Rightarrow> (Inl e, st3)
                 | Inr time \<Rightarrow>
                     (Inr \<lparr>opportunity = opp, useFlashLoan = flash,
                           strategy.tradeSize = maxTradeSize,
                           estimatedGasCostsBuy = gasBuy, estimatedGasCostsSell = gasSell,
                           strategy.bridgeFee = fee, bridgeTime = time,
                           strategy.steps = plan h opp time,
                           strategy.estimatedProfitWei = analysis.estimatedProfitWei (profitability opp),
                           strategy.estimatedProfitETH = analysis.estimatedProfitETH (profitability opp),
                           strategy.estimatedProfitUSD = analysis.estimatedProfitUSD (profitability opp),
                           strategy.estimatedROI = analysis.estimatedROI (profitability opp),
                           estimatedTime = js_mul time (Num 2)\<rparr>,
                      st3)))"


section \<open>The bot: \<open>scanForOpportunities\<close> and \<open>executeArbitrage\<close>\<close>

record active_trade =
  token :: string
  buyNetwork :: network
  sellNetwork :: network
  startTime :: int
  status :: string
  endTime :: "int option"
  profit :: "string option"
  error :: "string option"

record recent_opportunity =
  token :: string
  buyNetwork :: network
  sellNetwork :: network
  priceDifference :: string
  estimatedProfit :: string
  timestamp :: int

record botState =
  running :: bool
  lastScan :: "int option"
  activeTrade :: "active_trade option"
  recentOpportunities :: "recent_opportunity list"
  totalScans :: nat
  opportunitiesFound :: nat
  tradesExecuted :: nat
  tradesSuccessful :: nat
  tradesFailed :: nat

definition initial_botState :: botState where
  "initial_botState =
     \<lparr>running = False, lastScan = None, activeTrade = None, recentOpportunities = [],
      totalScans = 0, opportunitiesFound = 0, tradesExecuted = 0, tradesSuccessful = 0,
      tradesFailed = 0\<rparr>"

text \<open>
  The two functions are asynchronous. On the single thread of the runtime, the code between
  two \<open>await\<close>s runs without interruption; each function is therefore cut at its \<open>await\<close>s
  into segments, and a segment is one function on the bot's state. \<open>t\<close> is the value of
  \<open>new Date()\<close>.

  \<open>scanForOpportunities\<close> up to the \<open>await\<close> of the finder: it returns at once when a
  trade is active. The flag tells whether the scan goes on.
\<close>

definition scanForOpportunities_begin :: "int \<Rightarrow> botState \<Rightarrow> bool \<times> botState" where
  "scanForOpportunities_begin t b =
     (if activeTrade b \<noteq> None then (False, b)
      else (True, b\<lparr>lastScan := Some t, totalScans := totalScans b + 1\<rparr>))"

text \<open>
  \<open>scanForOpportunities\<close> after the finder has returned: the statistics and the recent
  opportunities. What follows is the call of \<open>executeArbitrage\<close> on the first opportunity
  of the sorted list, when \<open>AUTO_EXECUTE\<close> is set.
\<close>

definition scanForOpportunities_found :: "host \<Rightarrow> int \<Rightarrow> opportunity list \<Rightarrow> botState \<Rightarrow> botState" where
  "scanForOpportunities_found h t opportunities b =
     (if opportunities = [] then b
      else b\<lparr>opportunitiesFound := opportunitiesFound b + length opportunities,
             recentOpportunities :=
               map (\<lambda>opp. \<lparr>recent_opportunity.token = symbol (opportunity.token opp),
                            recent_opportunity.buyNetwork = opportunity.buyNetwork opp,
                            recent_opportunity.sellNetwork = opportunity.sellNetwork opp,
                            recent_opportunity.priceDifference =
                              toFixed h 2 (opportunity.priceDifference opp) @ ''%'',
                            estimatedProfit =
                              analysis.estimatedProfitUSD (profitability opp) @ '' USD'',
                            recent_opportunity.timestamp = t\<rparr>)
                   opportunities\<rparr>)"

text \<open>
  \<open>executeArbitrage\<close> up to its first \<open>await\<close>: the guard and the assignment of
  \<open>activeTrade\<close>. The flag tells whether the call goes on to build a strategy and to
  execute it; when a trade is active it returns at once.
\<close>

definition executeArbitrage_begin :: "int \<Rightarrow> opportunity \<Rightarrow> botState \<Rightarrow> bool \<times> botState" where
  "executeArbitrage_begin t opp b =
     (if activeTrade b \<noteq> None then (False, b)
      else (True,
            b\<lparr>activeTrade :=
                Some \<lparr>active_trade.token = symbol (opportunity.token opp),
                      active_trade.buyNetwork = opportunity.buyNetwork opp,
                      active_trade.sellNetwork = opportunity.sellNetwork opp,
                      active_trade.startTime = t,
                      active_trade.status = ''in_progress'',
                      active_trade.endTime = None, active_trade.profit = None,
                      active_trade.error = None\<rparr>\<rparr>))"

text \<open>
  The \<open>catch\<close> block of \<open>executeArbitrage\<close>. The flag tells whether it has set the timer
  that clears \<open>activeTrade\<close>.
\<close>

definition executeArbitrage_catch :: "int \<Rightarrow> error \<Rightarrow> botState \<Rightarrow> bool \<times> botState" where
  "executeArbitrage_catch t e b =
     (case activeTrade b of
        None \<Rightarrow> (False, b)
      | Some a \<Rightarrow>
          (True,
           b\<lparr>activeTrade := Some (a\<lparr>active_trade.status := ''failed'',
                                      active_trade.endTime := Some t,
                                      active_trade.error := Some (message e)\<rparr>),
             tradesExecuted := tradesExecuted b + 1,
             tradesFailed := tradesFailed b + 1\<rparr>))"

text \<open>
  \<open>executeArbitrage\<close> after its \<open>await\<close>s. The outcome of building and executing the
  strategy is an exception or an execution. With an execution, the trade is recorded (see
  \<open>finish_trade\<close> below), the active trade and the counters are updated and the timer is
  set. Two accesses can throw on the way, into the \<open>catch\<close> block: the assignment to
  \<open>botState.activeTrade.status\<close> when no trade is active, and the reading of
  \<open>execution.pnl.netProfitEth\<close> when a successful execution has no \<open>pnl\<close>.
\<close>

definition executeArbitrage_end ::
  "int \<Rightarrow> error + execution \<Rightarrow> botState \<Rightarrow> bool \<times> botState" where
  "executeArbitrage_end t outcome b =
     (case outcome of
        Inl e \<Rightarrow> executeArbitrage_catch t e b
      | Inr ex \<Rightarrow>
          (case activeTrade b of
             None \<Rightarrow>
               executeArbitrage_catch t (Error ''Cannot set properties of null (setting status)'') b
           | Some a \<Rightarrow>
               (let a1 = a\<lparr>active_trade.status := execution.status ex,
                           active_trade.endTime := Some t,
                           active_trade.profit :=
                             Some (case execution.pnl ex of
                                     None \<Rightarrow> ''0''
                                   | Some p \<Rightarrow> if netProfitEth p = [] then ''0'' else netProfitEth p)\<rparr>;
                    b1 = b\<lparr>activeTrade := Some a1, tradesExecuted := tradesExecuted b + 1\<rparr>
                in if execution.status ex = ''success''
                   then (let b2 = b1\<lparr>tradesSuccessful := tradesSuccessful b1 + 1\<rparr>
                         in case execution.pnl ex of
                              None \<Rightarrow>
                                executeArbitrage_catch t
                                  (Error ''Cannot read properties of undefined (reading netProfitEth)'') b2
                            | Some p \<Rightarrow> (True, b2))
                   else (True, b1\<lparr>tradesFailed := tradesFailed b1 + 1\<rparr>))))"

text \<open>
  The process: the bot's state and the ledger, with what is pending on the event loop.
  \<open>scanning\<close> counts the scans that wait for the finder, \<open>executing\<close> the calls of
  \<open>executeArbitrage\<close> that have passed the guard and not yet returned, that is, the
  executions in progress, and \<open>timers\<close> the timers that \<open>executeArbitrage\<close> has set and
  that have not fired yet.
\<close>

record process =
  bot :: botState
  ledger :: "tracker \<times> store"
  scanning :: nat
  executing :: nat
  timers :: nat

definition call_executeArbitrage :: "int \<Rightarrow> opportunity \<Rightarrow> process \<Rightarrow> process" where
  "call_executeArbitrage t opp s =
     (let (proceed, b) = executeArbitrage_begin t opp (bot s)
      in s\<lparr>bot := b, executing := executing s + (if proceed then 1 else 0)\<rparr>)"

definition call_scanForOpportunities :: "int \<Rightarrow> process \<Rightarrow> process" where
  "call_scanForOpportunities t s =
     (let (proceed, b) = scanForOpportunities_begin t (bot s)
      in s\<lparr>bot := b, scanning := scanning s + (if proceed then 1 else 0)\<rparr>)"

definition finish_trade :: "host \<Rightarrow> int \<Rightarrow> error + execution \<Rightarrow> process \<Rightarrow> process" where
  "finish_trade h t outcome s =
     (let (timer, b) = executeArbitrage_end t outcome (bot s)
      in s\<lparr>bot := b,
           ledger := (case outcome of
                        Inl e \<Rightarrow> ledger s
                      | Inr ex \<Rightarrow> snd (recordTrade h t ex (ledger s))),
           executing := executing s - 1,
           timers := timers s + (if timer then 1 else 0)\<rparr>)"

definition fire_timer :: "process \<Rightarrow> process" where
  "fire_timer s = s\<lparr>bot := (bot s)\<lparr>activeTrade := None\<rparr>, timers := timers s - 1\<rparr>"

text \<open>
  The steps of the process. A scan can be called at any time, by the scheduled job or by
  hand, and \<open>executeArbitrage\<close> too, through \<open>manualExecute\<close>. A waiting scan resumes with
  the finder's list; with \<open>AUTO_EXECUTE\<close> it calls \<open>executeArbitrage\<close> on the first
  opportunity of the sorted list, here any opportunity of the list. An execution in progress
  returns with any outcome. A pending timer fires. \<open>startBot\<close> and \<open>stopBot\<close> set the flag
  \<open>running\<close>.
\<close>

inductive bot_step :: "host \<Rightarrow> process \<Rightarrow> process \<Rightarrow> bool" for h :: host where
  scan_called: "bot_step h s (call_scanForOpportunities t s)"
| scan_resumed:
    "scanning s > 0 \<Longrightarrow>
     bot_step h s (s\<lparr>bot := scanForOpportunities_found h t opps (bot s),
                     scanning := scanning s - 1\<rparr>)"
| scan_resumed_auto:
    "scanning s > 0 \<Longrightarrow> opp \<in> set opps \<Longrightarrow>
     bot_step h s (call_executeArbitrage t opp
                     (s\<lparr>bot := scanForOpportunities_found h t opps (bot s),
                        scanning := scanning s - 1\<rparr>))"
| execute_called: "bot_step h s (call_executeArbitrage t opp s)"
| execute_returned: "executing s > 0 \<Longrightarrow> bot_step h s (finish_trade h t outcome s)"
| timer_fired: "timers s > 0 \<Longrightarrow> bot_step h s (fire_timer s)"
| running_set: "bot_step h s (s\<lparr>bot := (bot s)\<lparr>running := r\<rparr>\<rparr>)"

definition initial_process :: "tracker \<times> store \<Rightarrow> process" where
  "initial_process l =
     \<lparr>bot = initial_botState, ledger = l, scanning = 0, executing = 0, timers = 0\<rparr>"

inductive reachable :: "host \<Rightarrow> tracker \<times> store \<Rightarrow> process \<Rightarrow> bool" for h :: host and l :: "tracker \<times> store" where
  start: "reachable h l (initial_process l)"
| step: "reachable h l s \<Longrightarrow> bot_step h s s' \<Longrightarrow> reachable h l s'"

text \<open>
  The invariant of the process: at most one execution in progress or timer pending, and
  \<open>activeTrade\<close> is set exactly when there is one.
\<close>

definition single_flight :: "process \<Rightarrow> bool" where
  "single_flight s =
     (executing s + timers s \<le> 1 \<and> ((activeTrade (bot s) = None) = (executing s + timers s = 0)))"

section \<open>A host for concrete evaluations\<close>

text \<open>
  The general results hold for every host. The evaluations at concrete inputs use the
  following one: \<open>parseEther\<close> and \<open>formatEther\<close> with 18 decimals as in ethers 5,
  and the conversions between numbers and strings of ECMAScript. \<open>Number.prototype.toString\<close>
  prints the shortest decimal numeral that reads back as the same double, \<open>toFixed\<close> rounds
  the exact value of the double, and reading a numeral rounds its value to the nearest
  double. The readers accept a sign, digits and a fraction; white space, exponents and
  \<open>Infinity\<close> are not read.
\<close>

definition digit_char :: "int \<Rightarrow> char" where
  "digit_char d = ''0123456789'' ! nat d"

function pos_digits :: "int \<Rightarrow> string" where
  "pos_digits n =
     (if n < 10 then [digit_char n] else pos_digits (n div 10) @ [digit_char (n mod 10)])"
  by pat_completeness auto
termination
  by (relation "measure nat") auto

declare pos_digits.simps [simp del]

definition int_digits :: "int \<Rightarrow> string" where
  "int_digits v = (if v < 0 then ''-'' else []) @ pos_digits \<bar>v\<bar>"

definition digit_value :: "char \<Rightarrow> int" where
  "digit_value c = of_char c - 48"

definition digits_value :: "string \<Rightarrow> int" where
  "digits_value cs = foldl (\<lambda>acc c. acc * 10 + digit_value c) 0 cs"

definition strip_zeros :: "string \<Rightarrow> string" where
  "strip_zeros cs = rev (dropWhile (\<lambda>c. c = CHR ''0'') (rev cs))"

definition ex_formatEther :: "int \<Rightarrow> string" where
  "ex_formatEther v =
     (let fraction = pos_digits (\<bar>v\<bar> mod 10 ^ 18);
          padded = replicate (18 - length fraction) (CHR ''0'') @ fraction;
          stripped = strip_zeros padded;
          whole = pos_digits (\<bar>v\<bar> div 10 ^ 18)
      in (if v < 0 then ''-'' else []) @ whole @ ''.'' @ (if stripped = [] then ''0'' else stripped))"

definition ex_parseEther :: "string \<Rightarrow> error + int" where
  "ex_parseEther str =
     (let negative = (take 1 str = ''-'');
          body = (if negative then drop 1 str else str)
      in if body = [] \<or> \<not> list_all (\<lambda>c. c \<in> set ''0123456789.'') body
         then Inl (Error ''invalid decimal value'')
         else if body = ''.'' then Inl (Error ''missing value'')
         else if length (filter (\<lambda>c. c = CHR ''.'') body) > 1
         then Inl (Error ''too many decimal points'')
         else
           (let whole = takeWhile (\<lambda>c. c \<noteq> CHR ''.'') body;
                fraction = strip_zeros (drop 1 (dropWhile (\<lambda>c. c \<noteq> CHR ''.'') body))
            in if length fraction > 18
               then Inl (Error ''fractional component exceeds decimals'')
               else
                 (let wei = digits_value whole * 10 ^ 18
                          + digits_value (fraction @ replicate (18 - length fraction) (CHR ''0''))
                  in Inr (if negative then - wei else wei))))"

definition pow10 :: "int \<Rightarrow> real" where
  "pow10 e = (if 0 \<le> e then of_int (10 ^ nat e) else 1 / of_int (10 ^ nat (- e)))"

text \<open>The \<open>n\<close> with \<open>10 ^ (n - 1) \<le> v < 10 ^ n\<close>, for a positive \<open>v\<close>.\<close>

definition decimal_exponent :: "real \<Rightarrow> int" where
  "decimal_exponent v =
     (let n = (if 1 \<le> v then int (length (pos_digits \<lfloor>v\<rfloor>))
               else 1 - int (length (pos_digits \<lfloor>1 / v\<rfloor>)))
      in if pow10 n \<le> v then n + 1 else n)"

text \<open>
  The digits of \<open>Number::toString\<close>: the least \<open>k\<close> and an integer \<open>s\<close> such that
  \<open>s * 10 ^ (n - k)\<close> rounds to the double \<open>v\<close>, the nearer one if two integers do. Seventeen
  digits always suffice.
\<close>

fun shortest_digits :: "nat \<Rightarrow> int \<Rightarrow> real \<Rightarrow> int \<Rightarrow> int \<times> int" where
  "shortest_digits 0 k v n = (round_half_even (v / pow10 (n - k)), k)"
| "shortest_digits (Suc fuel) k v n =
     (let scale = pow10 (n - k);
          lo = \<lfloor>v / scale\<rfloor>;
          lo_ok = (binary64 (of_int lo * scale) = Num v);
          hi_ok = (binary64 (of_int (lo + 1) * scale) = Num v)
      in if lo_ok \<and> hi_ok
         then (if v - of_int lo * scale \<le> of_int (lo + 1) * scale - v then (lo, k) else (lo + 1, k))
         else if lo_ok then (lo, k)
         else if hi_ok then (lo + 1, k)
         else shortest_digits fuel (k + 1) v n)"

definition sign_digits :: "int \<Rightarrow> string" where
  "sign_digits e = (if e < 0 then ''-'' else ''+'') @ pos_digits \<bar>e\<bar>"

definition positive_toString :: "real \<Rightarrow> string" where
  "positive_toString v =
     (let n0 = decimal_exponent v;
          (s, k0) = shortest_digits 16 1 v n0;
          all_digits = pos_digits s;
          ds = strip_zeros all_digits;
          k = int (length ds);
          n = n0 + (int (length all_digits) - k0)
      in if k \<le> n \<and> n \<le> 21 then ds @ replicate (nat (n - k)) (CHR ''0'')
         else if 0 < n \<and> n \<le> 21 then take (nat n) ds @ ''.'' @ drop (nat n) ds
         else if - 6 < n \<and> n \<le> 0 then ''0.'' @ replicate (nat (- n)) (CHR ''0'') @ ds
         else if k = 1 then ds @ ''e'' @ sign_digits (n - 1)
         else take 1 ds @ ''.'' @ drop 1 ds @ ''e'' @ sign_digits (n - 1))"

definition ex_num_toString :: "jsnum \<Rightarrow> string" where
  "ex_num_toString x =
     (case x of
        NaN \<Rightarrow> ''NaN''
      | PInf \<Rightarrow> ''Infinity''
      | NInf \<Rightarrow> ''-Infinity''
      | Num r \<Rightarrow> if r = 0 then ''0''
                 else if r < 0 then ''-'' @ positive_toString (- r)
                 else positive_toString r)"

text \<open>
  \<open>toFixed\<close> takes the integer \<open>n\<close> for which \<open>n / 10 ^ d\<close> is nearest to the absolute
  value, the larger one on a tie, and prints numbers from \<open>10 ^ 21\<close> on as \<open>toString\<close> does.
\<close>

definition ex_toFixed :: "nat \<Rightarrow> jsnum \<Rightarrow> string" where
  "ex_toFixed d x =
     (case x of
        Num r \<Rightarrow>
          if 10 ^ 21 \<le> \<bar>r\<bar> then ex_num_toString x
          else
            (let q = \<lfloor>\<bar>r\<bar> * 10 ^ d + 1 / 2\<rfloor>;
                 f = pos_digits (q mod 10 ^ d)
             in (if r < 0 then ''-'' else []) @ pos_digits (q div 10 ^ d) @
                (if d = 0 then [] else ''.'' @ replicate (d - length f) (CHR ''0'') @ f))
      | _ \<Rightarrow> ex_num_toString x)"

definition is_digit :: "char \<Rightarrow> bool" where
  "is_digit c = (c \<in> set ''0123456789'')"

text \<open>
  The value of a sign, digits and a fraction, with what follows them in the string; NaN
  when there is no digit.
\<close>

definition read_decimal :: "string \<Rightarrow> jsnum \<times> string" where
  "read_decimal str =
     (let negative = (take 1 str = ''-'');
          body = (if negative \<or> take 1 str = ''+'' then drop 1 str else str);
          whole = takeWhile is_digit body;
          after = dropWhile is_digit body;
          fraction = (if take 1 after = ''.'' then takeWhile is_digit (drop 1 after) else []);
          rest = (if take 1 after = ''.'' then dropWhile is_digit (drop 1 after) else after)
      in if whole = [] \<and> fraction = [] then (NaN, str)
         else
           (let v = of_int (digits_value whole)
                    + of_int (digits_value fraction) / 10 ^ length fraction
            in (binary64 (if negative then - v else v), rest)))"

text \<open>
  \<open>parseFloat\<close> reads the longest prefix that is a numeral. The conversion of a string to
  a number, which \<open>Math.min\<close> applies, reads the whole string, and the empty string as 0.
\<close>

definition ex_parseFloat :: "string \<Rightarrow> jsnum" where
  "ex_parseFloat str = fst (read_decimal str)"

definition ex_ToNumber :: "string \<Rightarrow> jsnum" where
  "ex_ToNumber str =
     (if str = [] then Num 0
      else if snd (read_decimal str) = [] then fst (read_decimal str) else NaN)"

definition ex_host :: host where
  "ex_host =
     \<lparr>parseEther = ex_parseEther, formatEther = ex_formatEther, bn_toString = int_digits,
      num_toString = ex_num_toString, toFixed = ex_toFixed, parseFloat = ex_parseFloat,
      ToNumber = ex_ToNumber\<rparr>"


section \<open>Concrete inputs\<close>

text \<open>
  The first token of \<open>config/tokens.js\<close>, with the two prices that \<open>getTokenPrice\<close>
  simulates for it on Optimism and on Arbitrum.
\<close>

definition ex_token :: token where
  "ex_token =
     \<lparr>name = ''Lido Staked ETH'', symbol = ''stETH'',
      addresses =
        [(''ethereum'', ''0xae7ab96520DE3A18E5e111B5EaAb095312D7fE84''),
         (''arbitrum'', ''0x5979D7b546E38E414F7E9822514be443A4800529''),
         (''optimism'', ''0x1F32b1c2345538c0c6f582fCB022739c4A194Ebb''),
         (''polygon'', []),
         (''base'', ''0xc3864f98f2a61A7cAeb95b039D031b4E2f55e0e9'')],
      decimals = 18,
      networks = [''ethereum'', ''arbitrum'', ''optimism'', ''base'']\<rparr>"

definition ex_buyPrice :: price where
  "ex_buyPrice = \<lparr>tokenSymbol = ''stETH'', priceInEth = binary64 0.987, priceInUsd = Num 2961\<rparr>"

definition ex_sellPrice :: price where
  "ex_sellPrice = \<lparr>tokenSymbol = ''stETH'', priceInEth = binary64 0.995, priceInUsd = Num 2985\<rparr>"

definition ex_sellPrice_high :: price where
  "ex_sellPrice_high = \<lparr>tokenSymbol = ''stETH'', priceInEth = binary64 1.02, priceInUsd = Num 3060\<rparr>"

definition ex_gas :: gas_estimate where
  "ex_gas = \<lparr>gasEstimate = 500000, gasCost = 15000000000000000, gasCostEth = ''0.015''\<rparr>"

definition ex_analysis :: analysis where
  "ex_analysis =
     \<lparr>isProfitable = True, priceDiffPercentage = percentDiff ex_buyPrice ex_sellPrice,
      expectedBuyAmountWei = 5040526849037487335,
      expectedBuyAmountToken = ''5.040526849037487335'',
      expectedSellAmountWei = 5015324214792299899,
      expectedSellAmountToken = ''5.015324214792299899'',
      expectedEthFromSellWei = 4990247593718338399,
      expectedEthFromSellETH = ''4.990247593718338399'',
      estimatedGasCostBuy = ex_gas, estimatedGasCostSell = ex_gas,
      analysis.bridgeFee = ''0.025202634245187436'',
      bridgeBackFee = ''0.024951237968591691'',
      totalCostsWei = 54951237968591691, totalCostsETH = ''0.054951237968591691'',
      analysis.estimatedProfitWei = 60000000000000000,
      analysis.estimatedProfitETH = ''0.06'',
      analysis.estimatedProfitUSD = ''180.00'',
      analysis.estimatedROI = binary64 1.2,
      optimalTradeSize = ''100'', reason = ''Profitable''\<rparr>"

definition ex_opportunity :: opportunity where
  "ex_opportunity =
     \<lparr>opportunity.token = ex_token, opportunity.buyNetwork = ''optimism'',
      opportunity.sellNetwork = ''arbitrum'',
      opportunity.buyPrice = ex_buyPrice, opportunity.sellPrice = ex_sellPrice,
      priceDifference = percentDiff ex_buyPrice ex_sellPrice,
      profitability = ex_analysis, opportunity.timestamp = 1700000000000\<rparr>"

definition ex_strategy :: strategy where
  "ex_strategy =
     \<lparr>opportunity = ex_opportunity, useFlashLoan = False,
      strategy.tradeSize = 5000000000000000000,
      estimatedGasCostsBuy = ex_gas, estimatedGasCostsSell = ex_gas,
      strategy.bridgeFee = 25202634245187436, bridgeTime = Num 10, strategy.steps = [],
      strategy.estimatedProfitWei = 60000000000000000,
      strategy.estimatedProfitETH = ''0.06'',
      strategy.estimatedProfitUSD = ''180.00'', strategy.estimatedROI = binary64 1.2,
      estimatedTime = Num 20\<rparr>"

definition ex_pnl :: "int \<Rightarrow> string \<Rightarrow> pnl" where
  "ex_pnl net netEth =
     \<lparr>startingBalanceWei = 10000000000000000000, startingBalanceEth = ''10.0'',
      endingBalanceWei = 10000000000000000000 + net + 10000000000000000,
      endingBalanceEth = ''10.0'',
      grossProfitWei = net + 10000000000000000, grossProfitEth = ''0.0'',
      gasUsedWei = 10000000000000000, gasUsedEth = ''0.01'',
      netProfitWei = net, netProfitEth = netEth, pnl.roi = ''0%'', isProfit = (0 < net)\<rparr>"

definition ex_execution :: "string \<Rightarrow> pnl option \<Rightarrow> execution" where
  "ex_execution st p =
     \<lparr>strategy = ex_strategy, execution.startTime = 1700000000000,
      execution.endTime = Some 1700000060000,
      execution.steps = Some [], execution.status = st, execution.error = None,
      execution.pnl = p,
      startBalances = None, endBalances = None, totalGasUsed = None,
      execution.durationMs = Some 60000, execution.flashLoan = None, flashLoanTxHash = None,
      flashLoanAmount = None, flashLoanProfit = None, execution.profit = None\<rparr>"

text \<open>
  Four executions: a gain, a loss, a failure, and a success of the shape that the
  flash-loan path returns (status \<open>success\<close>, a \<open>profit\<close> string, no \<open>pnl\<close>).
\<close>

definition ex_gain :: execution where
  "ex_gain = ex_execution ''success'' (Some (ex_pnl 250000000000000000 ''0.25''))"

definition ex_loss :: execution where
  "ex_loss = ex_execution ''success'' (Some (ex_pnl (- 250000000000000000) ''-0.25''))"

definition ex_failed :: execution where
  "ex_failed = (ex_execution ''failed'' None)\<lparr>execution.error := Some ''Failed at step 2: timeout''\<rparr>"

definition ex_flash_success :: execution where
  "ex_flash_success =
     (ex_execution ''success'' None)
       \<lparr>execution.flashLoan := Some True, flashLoanProfit := Some ''0.06'',
         execution.profit := Some ''0.06''\<rparr>"

definition ex_store :: store where
  "ex_store = \<lparr>cells = (\<lambda>a. []), next_free = 0\<rparr>"

text \<open>The tracker that \<open>bot.js\<close> creates, \<open>new PnLTracker(10)\<close>, when no file exists.\<close>

definition ex_ledger :: "tracker \<times> store" where
  "ex_ledger = new_PnLTracker (Num 10) None None ex_store"

definition ex_ledger2 :: "tracker \<times> store" where
  "ex_ledger2 =
     record_all ex_host [(1700000070000, ex_gain), (1700000090000, ex_loss)] ex_ledger"

definition ex_ledger_loss :: "tracker \<times> store" where
  "ex_ledger_loss = record_all ex_host [(1700000090000, ex_loss)] ex_ledger"

text \<open>
  A world in which every request succeeds, and the same world with a forward transfer that
  times out (scenario D). Gas estimates and bridge fees are not served, so the fallbacks of
  the source apply.
\<close>

definition ex_receipt :: tx_receipt where
  "ex_receipt = \<lparr>tx_receipt.status = 1, gasUsed = 150000, effectiveGasPrice = 30000000000\<rparr>"

definition ex_world :: world where
  "ex_world =
     \<lparr>clock = (\<lambda>l. 1700000000000 + 1000 * int (length l)),
      wallet_balances = (\<lambda>l. [(''optimism'', \<lparr>wei = ''10000000000000000000'', eth = ''10.0''\<rparr>),
                               (''arbitrum'', \<lparr>wei = ''2000000000000000000'', eth = ''2.0''\<rparr>)]),
      signer_address = (\<lambda>l net. Inr ''0x00000000000000000000000000000000000000A1''),
      swap_tx = (\<lambda>l net a b amt sl. Inr (''0xswap'', ex_receipt)),
      bridge_tx = (\<lambda>l src dst a amt r. Inr (''0xbridge'', ex_receipt)),
      flash_tx = (\<lambda>l net a amt. Inr (''0xflash'', ex_receipt)),
      swap_gas = (\<lambda>l net a b amt. Inl (Error ''No quotes available from any exchange'')),
      bridge_fee = (\<lambda>l src dst a amt. Inl (Error ''No bridge provider reachable'')),
      token_price = (\<lambda>l a net. Inl (Error ''Token not found in configuration''))\<rparr>"

definition ex_world_timeout :: world where
  "ex_world_timeout =
     ex_world\<lparr>bridge_tx := (\<lambda>l src dst a amt r. Inl (Error ''Bridge confirmation timed out''))\<rparr>"

definition ex_engine :: engine where
  "ex_engine = \<lparr>log = [], flashLoanState = 0\<rparr>"

text \<open>The same world with exchanges and bridges that answer the calculator's queries.\<close>

definition ex_world_quotes :: world where
  "ex_world_quotes =
     ex_world\<lparr>swap_gas := (\<lambda>l net a b amt. Inr ex_gas),
              bridge_fee := (\<lambda>l src dst a amt. Inr (bn_quot (amt * 3) 1000))\<rparr>"

text \<open>A market in which Optimism quotes 0.987 and Arbitrum 1.02; the other networks fail.\<close>

definition ex_world_market :: world where
  "ex_world_market =
     ex_world_quotes
       \<lparr>token_price := (\<lambda>l a net. if net = ''optimism'' then Inr ex_buyPrice
                                    else if net = ''arbitrum'' then Inr ex_sellPrice_high
                                    else Inl (Error ''Price feed unavailable''))\<rparr>"


text \<open>A call of \<open>executeArbitrage\<close> on the fresh process of \<open>bot.js\<close>.\<close>

definition ex_process :: process where
  "ex_process = call_executeArbitrage 1700000000000 ex_opportunity (initial_process ex_ledger)"


section \<open>Results\<close>

subsection \<open>Numbers\<close>

lemma binary64_zero [simp]: "binary64 0 = Num 0"
  by (simp add: binary64_def)


subsection \<open>The PnL ledger\<close>

lemma ex_ledger_eval:
  "ex_ledger = (\<lparr>initialBalanceETH = Num 10, currentBalanceETH = Num 10, tracker.trades = 0, pnlHistory = []\<rparr>,
                \<lparr>cells = (\<lambda>a. [])(0 := []), next_free = 1\<rparr>)"
  by (simp add: ex_ledger_def ex_store_def new_PnLTracker_def loadData_def array_new_def)

text \<open>
  Claim C4 as stated fails: an execution with status \<open>success\<close> and no \<open>pnl\<close>, which is
  what the flash-loan path returns, is recorded without any change to the balance or to
  the PnL history.
\<close>

theorem recordTrade_success_without_pnl_counterexample:
  "execution.status ex_flash_success = ''success'' \<and>
   fst (snd (recordTrade ex_host 1700000070000 ex_flash_success ex_ledger)) = fst ex_ledger"
  by (simp add: ex_flash_success_def ex_execution_def ex_ledger_eval recordTrade_def Let_def)

lemma recordTrade_push:
  "recordTrade h now e (t, s) = (tr, t', s') \<Longrightarrow>
     tr = make_trade h now (length (cells s (tracker.trades t))) e \<and>
     s' = array_push (tracker.trades t) tr s \<and> tracker.trades t' = tracker.trades t \<and>
     initialBalanceETH t' = initialBalanceETH t"
  by (auto simp: recordTrade_def Let_def split: option.splits if_splits)

lemma recordTrade_advancing:
  "advancing e \<Longrightarrow> recordTrade h now e (t, s) = (tr, t', s') \<Longrightarrow>
     currentBalanceETH t' = js_add (currentBalanceETH t) (net_profit h e) \<and>
     pnlHistory t' = pnlHistory t @
       [\<lparr>pnl_point.timestamp = now, tradeId = trade.id tr, pnl_point.profit = net_profit h e,
         pnl_point.balance = js_add (currentBalanceETH t) (net_profit h e),
         pnl_point.token = token.symbol (opportunity.token (opportunity (strategy e)))\<rparr>]"
  by (auto simp: recordTrade_def advancing_def net_profit_def Let_def split: option.splits if_splits)

lemma recordTrade_not_advancing:
  "\<not> advancing e \<Longrightarrow> recordTrade h now e (t, s) = (tr, t', s') \<Longrightarrow> t' = t"
  by (auto simp: recordTrade_def advancing_def Let_def split: option.splits if_splits)

lemma record_all_ledger:
  "record_all h es (t, s) = (t', s') \<Longrightarrow>
     tracker.trades t' = tracker.trades t \<and>
     length (cells s' (tracker.trades t)) = length (cells s (tracker.trades t)) + length es \<and>
     currentBalanceETH t' =
       foldl js_add (currentBalanceETH t) (map (net_profit h) (filter advancing (map snd es))) \<and>
     length (pnlHistory t') = length (pnlHistory t) + length (filter advancing (map snd es))"
proof (induction es arbitrary: t s)
  case Nil
  then show ?case by simp
next
  case (Cons ne es)
  obtain tr t1 s1 where r: "recordTrade h (fst ne) (snd ne) (t, s) = (tr, t1, s1)"
    by (cases "recordTrade h (fst ne) (snd ne) (t, s)") auto
  from Cons.prems r have rest: "record_all h es (t1, s1) = (t', s')" by simp
  note ih = Cons.IH [OF rest]
  note p = recordTrade_push [OF r]
  have len: "length (cells s1 (tracker.trades t)) = Suc (length (cells s (tracker.trades t)))"
    using p by (simp add: array_push_def)
  show ?case
  proof (cases "advancing (snd ne)")
    case True
    from recordTrade_advancing [OF True r] ih p len True show ?thesis by simp
  next
    case False
    from recordTrade_not_advancing [OF False r] ih p len False show ?thesis by simp
  qed
qed

text \<open>
  Claim C4, amended. \<open>recordTrade\<close> appends exactly one trade record, whatever the
  status of the execution, and the record carries that status. The balance and the PnL
  history change exactly when the execution has status \<open>success\<close> and carries a \<open>pnl\<close>:
  then the net profit is added to the balance and one point is appended, otherwise the
  tracker is unchanged. After any sequence of calls the balance is the balance before,
  plus the net profits of these executions added one by one in the order of the calls;
  for a tracker created without stored files that starting balance is the initial one.
\<close>

theorem recordTrade_ledger:
  "(let (tr, t1, s1) = recordTrade h now e (t, s) in
      cells s1 (tracker.trades t) = cells s (tracker.trades t) @ [tr] \<and>
      tracker.trades t1 = tracker.trades t \<and>
      trade.status tr = execution.status e \<and>
      (advancing e \<longrightarrow>
         currentBalanceETH t1 = js_add (currentBalanceETH t) (net_profit h e) \<and>
         length (pnlHistory t1) = Suc (length (pnlHistory t))) \<and>
      (\<not> advancing e \<longrightarrow> t1 = t)) \<and>
   (let (t2, s2) = record_all h es (t, s) in
      length (cells s2 (tracker.trades t)) = length (cells s (tracker.trades t)) + length es \<and>
      currentBalanceETH t2 =
        foldl js_add (currentBalanceETH t) (map (net_profit h) (filter advancing (map snd es))) \<and>
      length (pnlHistory t2) = length (pnlHistory t) + length (filter advancing (map snd es))) \<and>
   currentBalanceETH (fst (record_all h es (new_PnLTracker b None None s0))) =
     foldl js_add b (map (net_profit h) (filter advancing (map snd es)))"
proof -
  obtain tr t1 s1 where r: "recordTrade h now e (t, s) = (tr, t1, s1)"
    by (cases "recordTrade h now e (t, s)") auto
  have one: "cells s1 (tracker.trades t) = cells s (tracker.trades t) @ [tr] \<and>
      tracker.trades t1 = tracker.trades t \<and> trade.status tr = execution.status e"
    using recordTrade_push [OF r] by (simp add: array_push_def make_trade_def)
  have adv: "advancing e \<longrightarrow>
         currentBalanceETH t1 = js_add (currentBalanceETH t) (net_profit h e) \<and>
         length (pnlHistory t1) = Suc (length (pnlHistory t))"
    using recordTrade_advancing [OF _ r] by simp
  have nadv: "\<not> advancing e \<longrightarrow> t1 = t"
    using recordTrade_not_advancing [OF _ r] by simp
  obtain t2 s2 where a: "record_all h es (t, s) = (t2, s2)"
    by (cases "record_all h es (t, s)") auto
  note all = record_all_ledger [OF a]
  obtain t0 s4 where n: "new_PnLTracker b None None s0 = (t0, s4)"
    by (cases "new_PnLTracker b None None s0") auto
  have b0: "currentBalanceETH t0 = b"
    using n by (auto simp: new_PnLTracker_def loadData_def array_new_def Let_def)
  obtain t3 s3 where a3: "record_all h es (t0, s4) = (t3, s3)"
    by (cases "record_all h es (t0, s4)") auto
  have fresh: "currentBalanceETH (fst (record_all h es (new_PnLTracker b None None s0))) =
     foldl js_add b (map (net_profit h) (filter advancing (map snd es)))"
    using record_all_ledger [OF a3] n a3 b0 by simp
  show ?thesis using r one adv nadv a all fresh by simp
qed

theorem recordTrade_ledger_witness:
  "advancing ex_gain \<and> \<not> advancing ex_flash_success \<and>
   currentBalanceETH (fst (snd (recordTrade ex_host 1700000070000 ex_gain ex_ledger))) = Num 10.25 \<and>
   fst (snd (recordTrade ex_host 1700000070000 ex_flash_success ex_ledger)) = fst ex_ledger \<and>
   currentBalanceETH (fst (record_all ex_host
      [(1700000070000, ex_gain), (1700000080000, ex_failed), (1700000090000, ex_loss)] ex_ledger)) = Num 10"
proof -
  have a: "advancing ex_gain" "\<not> advancing ex_flash_success" "\<not> advancing ex_failed" "advancing ex_loss"
    by (simp_all add: advancing_def ex_gain_def ex_flash_success_def ex_failed_def ex_loss_def ex_execution_def)
  have n1: "net_profit ex_host ex_gain = Num 0.25"
    by (simp add: net_profit_def ex_gain_def ex_execution_def ex_pnl_def ex_host_def) code_simp
  have n2: "net_profit ex_host ex_loss = Num (- 0.25)"
    by (simp add: net_profit_def ex_loss_def ex_execution_def ex_pnl_def ex_host_def) code_simp
  have l: "ex_ledger = (fst ex_ledger, snd ex_ledger)" "currentBalanceETH (fst ex_ledger) = Num 10"
    by (simp_all add: ex_ledger_eval)
  have f: "ex_ledger = new_PnLTracker (Num 10) None None ex_store" by (simp add: ex_ledger_def)
  have b1: "binary64 (41 / 4) = Num (41 / 4)" by code_simp
  have b2: "binary64 10 = Num 10" by code_simp
  show ?thesis
    using recordTrade_ledger [of ex_host 1700000070000 ex_gain "fst ex_ledger" "snd ex_ledger"
        "[(1700000070000, ex_gain), (1700000080000, ex_failed), (1700000090000, ex_loss)]" "Num 10" ex_store]
      recordTrade_ledger [of ex_host 1700000070000 ex_flash_success "fst ex_ledger" "snd ex_ledger" "[]" "Num 10" ex_store]
      a n1 n2 l(2)
    unfolding f [symmetric] l(1) [symmetric]
    by (simp add: split_beta b1 b2)
qed

lemma js_gt_ge_trans: "js_gt p l \<Longrightarrow> js_ge l (Num 0) \<Longrightarrow> js_ge p (Num 0)"
  by (cases p; cases l) (auto simp: js_gt_def js_ge_def js_le_def)

lemma js_lt_le_trans: "js_lt p l \<Longrightarrow> js_le l (Num 0) \<Longrightarrow> js_le p (Num 0)"
  by (cases p; cases l) (auto simp: js_le_def)

lemma totals_step_bounds:
  "js_ge (totals.largestProfit acc) (Num 0) \<Longrightarrow> js_le (totals.largestLoss acc) (Num 0) \<Longrightarrow>
   js_ge (totals.largestProfit (totals_step h acc tr)) (Num 0) \<and>
   js_le (totals.largestLoss (totals_step h acc tr)) (Num 0)"
  by (auto simp: totals_step_def Let_def split: option.splits dest: js_gt_ge_trans js_lt_le_trans)

lemma foldl_totals_bounds:
  "js_ge (totals.largestProfit acc) (Num 0) \<Longrightarrow> js_le (totals.largestLoss acc) (Num 0) \<Longrightarrow>
   js_ge (totals.largestProfit (foldl (totals_step h) acc ts)) (Num 0) \<and>
   js_le (totals.largestLoss (foldl (totals_step h) acc ts)) (Num 0)"
proof (induction ts arbitrary: acc)
  case Nil
  then show ?case by simp
next
  case (Cons tr ts)
  from totals_step_bounds [OF Cons.prems, of h tr] Cons.IH show ?case by simp
qed

lemma foldl_totals_no_gain:
  "\<forall>tr \<in> set ts. \<forall>x. trade_profit h tr = Some x \<longrightarrow> \<not> js_gt x (Num 0) \<Longrightarrow>
   totals.largestProfit acc = Num 0 \<Longrightarrow>
   totals.largestProfit (foldl (totals_step h) acc ts) = Num 0"
proof (induction ts arbitrary: acc)
  case Nil
  then show ?case by simp
next
  case (Cons tr ts)
  have "totals.largestProfit (totals_step h acc tr) = Num 0"
    using Cons.prems by (auto simp: totals_step_def trade_profit_def Let_def split: option.splits)
  with Cons show ?case by simp
qed

lemma foldl_totals_no_loss:
  "\<forall>tr \<in> set ts. \<forall>x. trade_profit h tr = Some x \<longrightarrow> \<not> js_lt x (Num 0) \<Longrightarrow>
   totals.largestLoss acc = Num 0 \<Longrightarrow>
   totals.largestLoss (foldl (totals_step h) acc ts) = Num 0"
proof (induction ts arbitrary: acc)
  case Nil
  then show ?case by simp
next
  case (Cons tr ts)
  have "totals.largestLoss (totals_step h acc tr) = Num 0"
    using Cons.prems by (auto simp: totals_step_def trade_profit_def Let_def split: option.splits)
  with Cons show ?case by simp
qed

text \<open>
  Claim C9. \<open>getSummary\<close> reports the two loop variables \<open>largestProfit\<close> and
  \<open>largestLoss\<close>, printed with four decimals. The first is never below zero and the
  second never above. When no recorded trade has a net profit above zero, the largest profit
  is zero; when none has a net profit below zero, the largest loss is zero.
\<close>

theorem getSummary_largest_bounds:
  "(let ts = cells s (tracker.trades t); acc = totals_loop h ts in
      summary.largestProfit (getSummary h t s) = toFixed h 4 (totals.largestProfit acc) \<and>
      summary.largestLoss (getSummary h t s) = toFixed h 4 (totals.largestLoss acc) \<and>
      js_ge (totals.largestProfit acc) (Num 0) \<and>
      js_le (totals.largestLoss acc) (Num 0) \<and>
      ((\<forall>tr \<in> set ts. \<forall>x. trade_profit h tr = Some x \<longrightarrow> \<not> js_gt x (Num 0)) \<longrightarrow>
         totals.largestProfit acc = Num 0) \<and>
      ((\<forall>tr \<in> set ts. \<forall>x. trade_profit h tr = Some x \<longrightarrow> \<not> js_lt x (Num 0)) \<longrightarrow>
         totals.largestLoss acc = Num 0))"
proof -
  let ?ts = "cells s (tracker.trades t)"
  have p: "summary.largestProfit (getSummary h t s) = toFixed h 4 (totals.largestProfit (totals_loop h ?ts))"
    by (simp add: getSummary_def Let_def)
  have l: "summary.largestLoss (getSummary h t s) = toFixed h 4 (totals.largestLoss (totals_loop h ?ts))"
    by (simp add: getSummary_def Let_def)
  have b: "js_ge (totals.largestProfit (totals_loop h ?ts)) (Num 0) \<and>
           js_le (totals.largestLoss (totals_loop h ?ts)) (Num 0)"
    unfolding totals_loop_def by (rule foldl_totals_bounds) (simp_all add: js_ge_def js_le_def)
  have g: "(\<forall>tr \<in> set ?ts. \<forall>x. trade_profit h tr = Some x \<longrightarrow> \<not> js_gt x (Num 0)) \<longrightarrow>
         totals.largestProfit (totals_loop h ?ts) = Num 0"
    unfolding totals_loop_def using foldl_totals_no_gain [of ?ts h] by simp
  have n: "(\<forall>tr \<in> set ?ts. \<forall>x. trade_profit h tr = Some x \<longrightarrow> \<not> js_lt x (Num 0)) \<longrightarrow>
         totals.largestLoss (totals_loop h ?ts) = Num 0"
    unfolding totals_loop_def using foldl_totals_no_loss [of ?ts h] by simp
  show ?thesis unfolding Let_def using p l b g n by blast
qed

theorem getSummary_largest_bounds_witness:
  "trade_profit ex_host (hd (cells (snd ex_ledger_loss) (tracker.trades (fst ex_ledger_loss))))
     = Some (Num (- 0.25)) \<and>
   length (cells (snd ex_ledger_loss) (tracker.trades (fst ex_ledger_loss))) = 1 \<and>
   summary.largestProfit (getSummary ex_host (fst ex_ledger_loss) (snd ex_ledger_loss)) = ''0.0000'' \<and>
   js_le (totals.largestLoss (totals_loop ex_host
            (cells (snd ex_ledger_loss) (tracker.trades (fst ex_ledger_loss))))) (Num 0)"
proof -
  let ?ts = "cells (snd ex_ledger_loss) (tracker.trades (fst ex_ledger_loss))"
  have pf: "parseFloat ex_host ''-0.25'' = Num (- 0.25)"
    by (simp add: ex_host_def) code_simp
  have ts: "?ts = [make_trade ex_host 1700000090000 0 ex_loss]"
    by (simp add: ex_ledger_loss_def ex_ledger_eval recordTrade_def array_push_def
        ex_loss_def ex_execution_def Let_def)
  have tp: "trade_profit ex_host (make_trade ex_host 1700000090000 0 ex_loss) = Some (Num (- 0.25))"
    by (simp add: trade_profit_def make_trade_def ex_loss_def ex_execution_def ex_pnl_def pf)
  have z: "toFixed ex_host 4 (Num 0) = ''0.0000''"
    by (simp add: ex_host_def) code_simp
  have hyp: "\<forall>tr \<in> set ?ts. \<forall>x. trade_profit ex_host tr = Some x \<longrightarrow> \<not> js_gt x (Num 0)"
    by (simp add: ts tp js_gt_def)
  show ?thesis
    using getSummary_largest_bounds [of "snd ex_ledger_loss" "fst ex_ledger_loss" ex_host] hyp ts tp z
    by (simp add: Let_def)
qed

lemma getTradeHistory_frame:
  assumes "tracker.trades t < next_free s"
  shows "cells (snd (snd (getTradeHistory lmt ofs (t, s)))) (tracker.trades t) = cells s (tracker.trades t)"
  using assms
  by (simp add: getTradeHistory_def array_spread_def array_new_def array_sort_newest_first_def
      array_slice_def Let_def split: prod.splits)

lemma getTradeHistory_old_cells:
  assumes "a < next_free s"
  shows "cells (snd (snd (getTradeHistory lmt ofs (t, s)))) a = cells s a"
  using assms
  by (simp add: getTradeHistory_def array_spread_def array_new_def array_sort_newest_first_def
      array_slice_def Let_def split: prod.splits)

lemma getTradeHistory_tracker: "fst (snd (getTradeHistory lmt ofs (t, s))) = t"
  by (simp add: getTradeHistory_def array_spread_def array_new_def array_sort_newest_first_def
      array_slice_def Let_def split: prod.splits)

lemma getTradeHistory_next_free:
  "next_free (snd (snd (getTradeHistory lmt ofs (t, s)))) = Suc (Suc (next_free s))"
  by (simp add: getTradeHistory_def array_spread_def array_new_def array_sort_newest_first_def
      array_slice_def Let_def split: prod.splits)

lemma getTradeHistory_contents:
  assumes "tracker.trades t < next_free s"
  shows "page_contents (getTradeHistory lmt ofs (t, s)) =
     (length (cells s (tracker.trades t)), lmt, ofs,
      js_slice (sort_key (\<lambda>t. - trade.timestamp t) (cells s (tracker.trades t))) ofs (ofs + lmt))"
  using assms
  by (simp add: page_contents_def getTradeHistory_def array_spread_def array_new_def array_sort_newest_first_def
      array_slice_def Let_def split: prod.splits)

text \<open>
  Claim C10. For a tracker whose array of trades is allocated, \<open>getTradeHistory\<close>
  returns the tracker as it was (balance and PnL history included), leaves the stored
  array of trades and every other array that existed before the call as they were, and a
  second call with the same arguments returns a page with the same contents.
\<close>

theorem getTradeHistory_read_only:
  assumes "tracker.trades t < next_free s"
  shows "(let (page, t1, s1) = getTradeHistory lmt ofs (t, s) in
           t1 = t \<and> cells s1 (tracker.trades t) = cells s (tracker.trades t) \<and>
           (\<forall>a < next_free s. cells s1 a = cells s a) \<and>
           page_contents (getTradeHistory lmt ofs (t1, s1)) = page_contents (page, t1, s1))"
proof -
  obtain page t1 s1 where r: "getTradeHistory lmt ofs (t, s) = (page, t1, s1)"
    by (cases "getTradeHistory lmt ofs (t, s)") auto
  have t1: "t1 = t" using getTradeHistory_tracker [of lmt ofs t s] r by simp
  have c: "cells s1 (tracker.trades t) = cells s (tracker.trades t)"
    using getTradeHistory_frame [OF assms, of lmt ofs] r by simp
  have o: "\<forall>a < next_free s. cells s1 a = cells s a"
    using getTradeHistory_old_cells [of _ s lmt ofs t] r by simp
  have n: "tracker.trades t < next_free s1"
    using getTradeHistory_next_free [of lmt ofs t s] r assms by simp
  have "page_contents (getTradeHistory lmt ofs (t, s1)) = page_contents (getTradeHistory lmt ofs (t, s))"
    using getTradeHistory_contents [OF n] getTradeHistory_contents [OF assms] c by simp
  then show ?thesis using r t1 c o by simp
qed

lemma ex_ledger2_ids:
  "tracker.trades (fst ex_ledger2) = 0 \<and> next_free (snd ex_ledger2) = 1 \<and>
   map trade.id (cells (snd ex_ledger2) 0) = [1, 2] \<and>
   map trade.timestamp (cells (snd ex_ledger2) 0) = [1700000070000, 1700000090000]"
  by (simp add: ex_ledger2_def ex_ledger_eval recordTrade_def make_trade_def array_push_def
      ex_gain_def ex_loss_def ex_execution_def Let_def)

theorem getTradeHistory_read_only_witness:
  "tracker.trades (fst ex_ledger2) < next_free (snd ex_ledger2) \<and>
   map trade.id (cells (snd ex_ledger2) (tracker.trades (fst ex_ledger2))) = [1, 2] \<and>
   map trade.id (snd (snd (snd (page_contents (getTradeHistory 10 0 ex_ledger2))))) = [2, 1] \<and>
   map trade.id (cells (snd (snd (getTradeHistory 10 0 ex_ledger2)))
                   (tracker.trades (fst ex_ledger2))) = [1, 2]"
proof -
  have a: "tracker.trades (fst ex_ledger2) < next_free (snd ex_ledger2)"
    using ex_ledger2_ids by simp
  have p: "ex_ledger2 = (fst ex_ledger2, snd ex_ledger2)" by simp
  have c: "map trade.id (snd (snd (snd (page_contents (getTradeHistory 10 0 ex_ledger2))))) = [2, 1]"
    by (subst p, subst getTradeHistory_contents [OF a])
       (simp add: ex_ledger2_def ex_ledger_eval recordTrade_def make_trade_def array_push_def
          ex_gain_def ex_loss_def ex_execution_def Let_def js_slice_def slice_index_def)
  show ?thesis
    using getTradeHistory_read_only [OF a, of 10 0] ex_ledger2_ids c
    by (simp add: split_beta)
qed


subsection \<open>The execution engine\<close>

lemma executeSwap_status:
  "executeSwap w net a b amt sl st = (Inr res, st') \<Longrightarrow> swap_result.status res = ''success''"
  by (auto simp: executeSwap_def waitForTransaction_def Let_def split: sum.splits if_splits prod.splits)

lemma executeSwap_log:
  "executeSwap w net a b amt sl st = (r, st') \<Longrightarrow> log st' = log st @ [ExecuteSwap net a b amt]"
  by (auto simp: executeSwap_def called_def Let_def)

lemma bridgeTokens_status:
  "bridgeTokens w src dst a amt rcp st = (Inr res, st') \<Longrightarrow> bridge_result.status res = ''success''"
  by (auto simp: bridgeTokens_def waitForTransaction_def Let_def split: sum.splits if_splits prod.splits)

lemma bridgeTokens_log:
  "bridgeTokens w src dst a amt rcp st = (r, st') \<Longrightarrow> log st' = log st @ [BridgeTokens src dst a amt rcp]"
  by (auto simp: bridgeTokens_def called_def Let_def)

lemma getSigner_log: "getSigner w net st = (r, st') \<Longrightarrow> log st' = log st @ [GetSigner net]"
  by (auto simp: getSigner_def called_def)

lemma checkWalletBalances_log:
  "checkWalletBalances w st = (r, st') \<Longrightarrow> log st' = log st @ [CheckWalletBalances]"
  by (auto simp: checkWalletBalances_def called_def)

lemma buy_try_success:
  assumes "buy_try h cfg w strat simulate s st = (Inr g, s', st')"
  shows "exec_step.status s' = ''success''"
proof (cases simulate)
  case True
  with assms show ?thesis by (auto simp: buy_try_def Let_def split: sum.splits prod.splits)
next
  case False
  with assms show ?thesis
    by (auto simp: buy_try_def Let_def split: sum.splits prod.splits dest: executeSwap_status)
qed

lemma sell_try_success:
  assumes "sell_try h cfg w strat simulate s st = (Inr g, s', st')"
  shows "exec_step.status s' = ''success''"
proof (cases simulate)
  case True
  with assms show ?thesis by (auto simp: sell_try_def Let_def split: sum.splits prod.splits)
next
  case False
  with assms show ?thesis
    by (auto simp: sell_try_def Let_def split: sum.splits prod.splits dest: executeSwap_status)
qed

lemma bridge_try_success:
  assumes "bridge_try h cfg w strat simulate s st = (Inr g, s', st')"
  shows "exec_step.status s' = ''success''"
proof (cases simulate)
  case True
  with assms show ?thesis by (auto simp: bridge_try_def Let_def split: sum.splits prod.splits)
next
  case False
  with assms show ?thesis
    by (auto simp: bridge_try_def Let_def split: sum.splits prod.splits dest: bridgeTokens_status)
qed

lemma bridgeBack_try_success:
  assumes "bridgeBack_try h cfg w strat simulate s st = (Inr g, s', st')"
  shows "exec_step.status s' = ''success''"
proof (cases simulate)
  case True
  with assms show ?thesis by (auto simp: bridgeBack_try_def Let_def split: sum.splits prod.splits)
next
  case False
  with assms show ?thesis
    by (auto simp: bridgeBack_try_def Let_def split: sum.splits prod.splits dest: bridgeTokens_status)
qed

text \<open>What each block adds to the log.\<close>

lemma buy_try_calls:
  assumes "buy_try h cfg w strat simulate s st = (r, s', st')"
  shows "\<exists>cs. log st' = log st @ cs \<and> length (filter is_swap cs) \<le> 1 \<and> filter is_bridge cs = []"
proof (cases simulate)
  case True
  with assms have "log st' = log st @ []"
    by (auto simp: buy_try_def Let_def split: sum.splits prod.splits)
  then show ?thesis by (intro exI [of _ "[]"]) simp
next
  case False
  with assms have "\<exists>c. is_swap c \<and> log st' = log st @ [c]"
    by (auto simp: buy_try_def Let_def split: sum.splits prod.splits dest!: executeSwap_log)
  then obtain c where "is_swap c" "log st' = log st @ [c]" by blast
  then show ?thesis by (intro exI [of _ "[c]"]) (cases c; simp)
qed

lemma sell_try_calls:
  assumes "sell_try h cfg w strat simulate s st = (r, s', st')"
  shows "\<exists>cs. log st' = log st @ cs \<and> length (filter is_swap cs) \<le> 1 \<and> filter is_bridge cs = []"
proof (cases simulate)
  case True
  with assms have "log st' = log st @ []"
    by (auto simp: sell_try_def Let_def split: sum.splits prod.splits)
  then show ?thesis by (intro exI [of _ "[]"]) simp
next
  case False
  with assms have "\<exists>c. is_swap c \<and> log st' = log st @ [c]"
    by (auto simp: sell_try_def Let_def split: sum.splits prod.splits dest!: executeSwap_log)
  then obtain c where "is_swap c" "log st' = log st @ [c]" by blast
  then show ?thesis by (intro exI [of _ "[c]"]) (cases c; simp)
qed

lemma bridge_try_calls:
  assumes "bridge_try h cfg w strat simulate s st = (r, s', st')"
  shows "\<exists>cs. log st' = log st @ cs \<and> filter is_swap cs = [] \<and> length (filter is_bridge cs) \<le> 1"
proof -
  obtain sg st1 where g: "getSigner w (opportunity.sellNetwork (opportunity strat)) st = (sg, st1)"
    by (cases "getSigner w (opportunity.sellNetwork (opportunity strat)) st") auto
  note l1 = getSigner_log [OF g]
  show ?thesis
  proof (cases "simulate \<or> isl sg")
    case True
    with assms g have "st' = st1"
      by (auto simp: bridge_try_def Let_def isl_def split: sum.splits prod.splits)
    with l1 show ?thesis
      by (intro exI [of _ "[GetSigner (opportunity.sellNetwork (opportunity strat))]"]) simp
  next
    case False
    with assms g have "\<exists>c. is_bridge c \<and> log st' = log st1 @ [c]"
      by (auto simp: bridge_try_def Let_def isl_def split: sum.splits prod.splits dest!: bridgeTokens_log)
    then obtain c where "is_bridge c" "log st' = log st1 @ [c]" by blast
    with l1 show ?thesis
      by (intro exI [of _ "[GetSigner (opportunity.sellNetwork (opportunity strat)), c]"]) (cases c; simp)
  qed
qed

lemma bridgeBack_try_calls:
  assumes "bridgeBack_try h cfg w strat simulate s st = (r, s', st')"
  shows "\<exists>cs. log st' = log st @ cs \<and> filter is_swap cs = [] \<and> length (filter is_bridge cs) \<le> 1"
proof -
  obtain sg st1 where g: "getSigner w (opportunity.buyNetwork (opportunity strat)) st = (sg, st1)"
    by (cases "getSigner w (opportunity.buyNetwork (opportunity strat)) st") auto
  note l1 = getSigner_log [OF g]
  show ?thesis
  proof (cases "simulate \<or> isl sg")
    case True
    with assms g have "st' = st1"
      by (auto simp: bridgeBack_try_def Let_def isl_def split: sum.splits prod.splits)
    with l1 show ?thesis
      by (intro exI [of _ "[GetSigner (opportunity.buyNetwork (opportunity strat))]"]) simp
  next
    case False
    with assms g have "\<exists>c. is_bridge c \<and> log st' = log st1 @ [c]"
      by (auto simp: bridgeBack_try_def Let_def isl_def split: sum.splits prod.splits dest!: bridgeTokens_log)
    then obtain c where "is_bridge c" "log st' = log st1 @ [c]" by blast
    with l1 show ?thesis
      by (intro exI [of _ "[GetSigner (opportunity.buyNetwork (opportunity strat)), c]"]) (cases c; simp)
  qed
qed

lemma step_catch_fields:
  "execution.status (step_catch w n e pushed cur ex st) = ''failed'' \<and>
   execution.error (step_catch w n e pushed cur ex st) = Some (''Failed at step '' @ n @ '': '' @ message e) \<and>
   execution.steps (step_catch w n e pushed cur ex st) =
     Some (pushed @ [cur\<lparr>exec_step.status := ''failed'', exec_step.error := Some (message e),
                          exec_step.endTime := Some (clock w (log st))\<rparr>])"
  by (simp add: step_catch_def)

text \<open>
  Claim C3. When the \<open>try\<close> block of step \<open>k\<close> is the first to throw, with exception
  \<open>e\<close>, then \<open>k\<close> is between 1 and 4, the returned execution has status \<open>failed\<close> and
  the error \<open>Failed at step k:\<close> followed by the message, its steps are exactly \<open>k\<close>, the
  first \<open>k - 1\<close> with status \<open>success\<close> and the last with status \<open>failed\<close> and the
  message, and the engine stops in the state in which the failing block left it: no later
  request is made. Of the two swaps and two transfers of a full run, a failure at step 1 or
  2 has made at most one swap, a failure at step 1 no transfer, and a failure at step 2 or
  3 at most one transfer. With \<open>k = 2\<close> this is scenario D.
\<close>

theorem executeArbitrageStrategy_step_failure:
  assumes "first_failure h cfg w strat simulate st = Some (k, e, st')"
  shows "1 \<le> k \<and> k \<le> 4 \<and>
         failure_report k e (fst (executeArbitrageStrategy h cfg w strat simulate st)) \<and>
         snd (executeArbitrageStrategy h cfg w strat simulate st) = st' \<and>
         length (filter is_swap (new_calls st st')) \<le> (if k \<le> 2 then 1 else 2) \<and>
         length (filter is_bridge (new_calls st st')) \<le> (if k = 1 then 0 else if k \<le> 3 then 1 else 2)"
proof -
  let ?opp = "opportunity strat"
  obtain sb st0 where c0: "checkWalletBalances w st = (sb, st0)"
    by (cases "checkWalletBalances w st") auto
  note l0 = checkWalletBalances_log [OF c0]
  obtain r1 s1 st1 where t1: "buy_try h cfg w strat simulate
      (new_step 1 ''Buy LSD'' (opportunity.buyNetwork ?opp) (clock w (log st0))) st0 = (r1, s1, st1)"
    by (metis prod_cases3)
  from buy_try_calls [OF t1] obtain cs1 where
    l1: "log st1 = log st0 @ cs1" "length (filter is_swap cs1) \<le> 1" "filter is_bridge cs1 = []" by blast
  show ?thesis
  proof (cases r1)
    case (Inl e1)
    with assms c0 t1 have k: "k = 1" "e = e1" "st' = st1"
      by (simp_all add: first_failure_def Let_def)
    have ex: "executeArbitrageStrategy h cfg w strat simulate st =
        (step_catch w ''1'' e [] s1
           (\<lparr>strategy = strat, execution.startTime = clock w (log st),
             execution.endTime = None, execution.steps = Some [],
             execution.status = ''in_progress'', execution.error = None, execution.pnl = None,
             startBalances = None, endBalances = None, totalGasUsed = None,
             execution.durationMs = None, execution.flashLoan = None, flashLoanTxHash = None,
             flashLoanAmount = None, flashLoanProfit = None, execution.profit = None\<rparr>
             \<lparr>startBalances := Some sb\<rparr>) st1, st1)"
      using c0 t1 Inl k by (simp add: executeArbitrageStrategy_def Let_def)
    show ?thesis
      using k l0 l1 unfolding ex
      by (simp add: failure_report_def step_catch_def step_name_def new_calls_def)
  next
    case (Inr g1)
    note ok1 = buy_try_success [OF t1 [unfolded Inr]]
    obtain r2 s2 st2 where t2: "bridge_try h cfg w strat simulate
        (new_step 2 ''Bridge LSD'' (opportunity.buyNetwork ?opp) (clock w (log st1))) st1 = (r2, s2, st2)"
      by (metis prod_cases3)
    from bridge_try_calls [OF t2] obtain cs2 where
      l2: "log st2 = log st1 @ cs2" "filter is_swap cs2 = []" "length (filter is_bridge cs2) \<le> 1" by blast
    show ?thesis
    proof (cases r2)
      case (Inl e2)
      with assms c0 t1 t2 Inr have k: "k = 2" "e = e2" "st' = st2"
        by (simp_all add: first_failure_def Let_def)
      have "\<exists>x. executeArbitrageStrategy h cfg w strat simulate st =
          (step_catch w ''2'' e [s1] s2 x st2, st2)"
        using c0 t1 t2 Inr Inl k by (simp add: executeArbitrageStrategy_def Let_def) blast
      then obtain x where ex: "executeArbitrageStrategy h cfg w strat simulate st =
          (step_catch w ''2'' e [s1] s2 x st2, st2)" by blast
      show ?thesis
        using k l0 l1 l2 ok1 unfolding ex
        by (simp add: failure_report_def step_catch_def step_name_def new_calls_def)
    next
      case (Inr g2)
      note r1 = \<open>r1 = Inr g1\<close>
      note ok2 = bridge_try_success [OF t2 [unfolded Inr]]
      obtain r3 s3 st3 where t3: "sell_try h cfg w strat simulate
          (new_step 3 ''Sell LSD'' (opportunity.sellNetwork ?opp) (clock w (log st2))) st2 = (r3, s3, st3)"
        by (metis prod_cases3)
      from sell_try_calls [OF t3] obtain cs3 where
        l3: "log st3 = log st2 @ cs3" "length (filter is_swap cs3) \<le> 1" "filter is_bridge cs3 = []" by blast
      show ?thesis
      proof (cases r3)
        case (Inl e3)
        with assms c0 t1 t2 t3 r1 Inr have k: "k = 3" "e = e3" "st' = st3"
          by (simp_all add: first_failure_def Let_def)
        have "\<exists>x. executeArbitrageStrategy h cfg w strat simulate st =
            (step_catch w ''3'' e [s1, s2] s3 x st3, st3)"
          using c0 t1 t2 t3 r1 Inr Inl k by (simp add: executeArbitrageStrategy_def Let_def) blast
        then obtain x where ex: "executeArbitrageStrategy h cfg w strat simulate st =
            (step_catch w ''3'' e [s1, s2] s3 x st3, st3)" by blast
        have i: "\<And>i. i < 2 \<Longrightarrow> exec_step.status ([s1, s2, s3] ! i) = ''success''"
          using ok1 ok2 by (auto simp: less_Suc_eq numeral_2_eq_2)
        show ?thesis
          using k l0 l1 l2 l3 ok1 ok2 unfolding ex
          by (auto simp: failure_report_def step_catch_def step_name_def new_calls_def
              less_Suc_eq numeral_2_eq_2 nth_Cons')
      next
        case (Inr g3)
        note r2 = \<open>r2 = Inr g2\<close>
        note ok3 = sell_try_success [OF t3 [unfolded Inr]]
        obtain r4 s4 st4 where t4: "bridgeBack_try h cfg w strat simulate
            (new_step 4 ''Bridge ETH back'' (opportunity.sellNetwork ?opp) (clock w (log st3))) st3 = (r4, s4, st4)"
          by (metis prod_cases3)
        from bridgeBack_try_calls [OF t4] obtain cs4 where
          l4: "log st4 = log st3 @ cs4" "filter is_swap cs4 = []" "length (filter is_bridge cs4) \<le> 1" by blast
        show ?thesis
        proof (cases r4)
          case (Inl e4)
          with assms c0 t1 t2 t3 t4 r1 r2 Inr have k: "k = 4" "e = e4" "st' = st4"
            by (simp_all add: first_failure_def Let_def)
          have "\<exists>x. executeArbitrageStrategy h cfg w strat simulate st =
              (step_catch w ''4'' e [s1, s2, s3] s4 x st4, st4)"
            using c0 t1 t2 t3 t4 r1 r2 Inr Inl k by (simp add: executeArbitrageStrategy_def Let_def) blast
          then obtain x where ex: "executeArbitrageStrategy h cfg w strat simulate st =
              (step_catch w ''4'' e [s1, s2, s3] s4 x st4, st4)" by blast
          show ?thesis
            using k l0 l1 l2 l3 l4 ok1 ok2 ok3 unfolding ex
            by (auto simp: failure_report_def step_catch_def step_name_def new_calls_def
                less_Suc_eq numeral_3_eq_3 nth_Cons')
        next
          case (Inr g4)
          with assms c0 t1 t2 t3 t4 r1 r2 \<open>r3 = Inr g3\<close> show ?thesis
            by (simp add: first_failure_def Let_def)
        qed
      qed
    qed
  qed
qed

theorem executeArbitrageStrategy_step_failure_witness:
  "first_failure ex_host default_config ex_world_timeout ex_strategy False ex_engine =
     Some (2, Error ''Bridge confirmation timed out'',
       \<lparr>log = [CheckWalletBalances,
                ExecuteSwap ''optimism'' AddressZero ''0x1F32b1c2345538c0c6f582fCB022739c4A194Ebb''
                  5000000000000000000,
                GetSigner ''arbitrum'',
                BridgeTokens ''optimism'' ''arbitrum'' ''0x1F32b1c2345538c0c6f582fCB022739c4A194Ebb''
                  5040526849037487335 ''0x00000000000000000000000000000000000000A1''],
         flashLoanState = 0\<rparr>) \<and>
   execution.status
     (fst (executeArbitrageStrategy ex_host default_config ex_world_timeout ex_strategy False ex_engine))
     = ''failed'' \<and>
   execution.error
     (fst (executeArbitrageStrategy ex_host default_config ex_world_timeout ex_strategy False ex_engine))
     = Some ''Failed at step 2: Bridge confirmation timed out'' \<and>
   map exec_step.status (the (execution.steps
     (fst (executeArbitrageStrategy ex_host default_config ex_world_timeout ex_strategy False ex_engine))))
     = [''success'', ''failed'']"
proof -
  have ff: "first_failure ex_host default_config ex_world_timeout ex_strategy False ex_engine =
     Some (2, Error ''Bridge confirmation timed out'',
       \<lparr>log = [CheckWalletBalances,
                ExecuteSwap ''optimism'' AddressZero ''0x1F32b1c2345538c0c6f582fCB022739c4A194Ebb''
                  5000000000000000000,
                GetSigner ''arbitrum'',
                BridgeTokens ''optimism'' ''arbitrum'' ''0x1F32b1c2345538c0c6f582fCB022739c4A194Ebb''
                  5040526849037487335 ''0x00000000000000000000000000000000000000A1''],
         flashLoanState = 0\<rparr>)"
    by code_simp
  have st: "map exec_step.status (the (execution.steps
     (fst (executeArbitrageStrategy ex_host default_config ex_world_timeout ex_strategy False ex_engine))))
     = [''success'', ''failed'']"
    by code_simp
  from executeArbitrageStrategy_step_failure [OF ff]
  have "failure_report 2 (Error ''Bridge confirmation timed out'')
     (fst (executeArbitrageStrategy ex_host default_config ex_world_timeout ex_strategy False ex_engine))"
    by simp
  then show ?thesis using ff st by (simp add: failure_report_def step_name_def)
qed


subsection \<open>The flash-loan path\<close>





lemma bn_quot_fee_examples:
  "bn_quot (10000 * 9) 10000 = 9" "bn_quot (19999 * 9) 10000 = 17" "bn_quot (- 19999 * 9) 10000 = - 17"
  by (simp_all add: bn_quot_def)




subsection \<open>The profitability calculator\<close>

text \<open>
  Claim C6 as stated fails, twice. First, no lower clamp exists: with a spread of 2
  percent, no bridge fee and fixed costs of 0.00002 ether, the margin is sufficient and the
  function returns \<open>'0.04999999999999996'\<close>, which is below the 0.1 that it returns for an
  insufficient margin. Second, a margin of zero is not always recognised: with prices 1 and
  1.02 and a bridge fee of 0.02 ether the two ratios are equal as decimals, but the quotient
  and the difference are rounded, the computed spread is \<open>0.020000000000000018\<close>, the test
  \<open>priceDiffRatio <= bridgeFeeRatio\<close> fails, and the function returns the cap, \<open>'100'\<close>.
\<close>

theorem calculateOptimalTradeSize_floor_counterexample:
  "\<not> js_le (priceDiffRatio (Num 1) (binary64 1.02)) (bridgeFeeRatio ex_host (Num 1) 0) \<and>
   calculateOptimalTradeSize ex_host (Num 1) (binary64 1.02) 10000000000000 10000000000000 0 0
     = ''0.04999999999999996'' \<and>
   js_lt (cappedTradeSize ex_host (Num 1) (binary64 1.02) 10000000000000 10000000000000 0 0)
         (binary64 0.1) \<and>
   num_toString ex_host (priceDiffRatio (Num 1) (binary64 1.02)) = ''0.020000000000000018'' \<and>
   bridgeFeeRatio ex_host (Num 1) 20000000000000000 = binary64 0.02 \<and>
   \<not> js_le (priceDiffRatio (Num 1) (binary64 1.02)) (bridgeFeeRatio ex_host (Num 1) 20000000000000000) \<and>
   calculateOptimalTradeSize ex_host (Num 1) (binary64 1.02) 15000000000000000 15000000000000000
     20000000000000000 25000000000000000 = ''100''"
  by code_simp

text \<open>
  Claim C6, amended. \<open>calculateOptimalTradeSize\<close> is total. Whenever the price-spread
  ratio that it computes, the rounded \<open>sellPrice / buyPrice - 1\<close>, is less than or equal to
  the bridge-fee ratio that it computes, it returns \<open>'0.1'\<close>. Otherwise it prints the
  minimum of the scaled fixed costs and the literal cap 100: a number that is at most 100,
  or NaN, and that has no lower bound.
\<close>

theorem calculateOptimalTradeSize_cap:
  "(js_le (priceDiffRatio b s) (bridgeFeeRatio h b fee) \<longrightarrow>
      calculateOptimalTradeSize h b s gb gs fee bb = ''0.1'') \<and>
   (\<not> js_le (priceDiffRatio b s) (bridgeFeeRatio h b fee) \<longrightarrow>
      calculateOptimalTradeSize h b s gb gs fee bb = num_toString h (cappedTradeSize h b s gb gs fee bb)) \<and>
   (cappedTradeSize h b s gb gs fee bb = NaN \<or> js_le (cappedTradeSize h b s gb gs fee bb) (Num 100))"
proof -
  have "\<And>x. Math_min x (Num 100) = NaN \<or> js_le (Math_min x (Num 100)) (Num 100)"
  proof -
    fix x show "Math_min x (Num 100) = NaN \<or> js_le (Math_min x (Num 100)) (Num 100)"
      by (cases x) (auto simp: Math_min_def js_le_def)
  qed
  then show ?thesis
    by (simp add: calculateOptimalTradeSize_def cappedTradeSize_def Let_def)
qed

theorem calculateOptimalTradeSize_cap_witness:
  "js_le (priceDiffRatio (Num 1) (binary64 1.02)) (bridgeFeeRatio ex_host (Num 1) 30000000000000000) \<and>
   calculateOptimalTradeSize ex_host (Num 1) (binary64 1.02) 15000000000000000 15000000000000000
     30000000000000000 25000000000000000 = ''0.1'' \<and>
   \<not> js_le (priceDiffRatio (Num 1) (binary64 1.02)) (bridgeFeeRatio ex_host (Num 1) 5000000000000000) \<and>
   calculateOptimalTradeSize ex_host (Num 1) (binary64 1.02) 15000000000000000 15000000000000000
     5000000000000000 25000000000000000 = ''100''"
proof -
  have a: "js_le (priceDiffRatio (Num 1) (binary64 1.02)) (bridgeFeeRatio ex_host (Num 1) 30000000000000000)"
    by code_simp
  have b: "\<not> js_le (priceDiffRatio (Num 1) (binary64 1.02)) (bridgeFeeRatio ex_host (Num 1) 5000000000000000)"
    by code_simp
  have c: "num_toString ex_host (cappedTradeSize ex_host (Num 1) (binary64 1.02) 15000000000000000
     15000000000000000 5000000000000000 25000000000000000) = ''100''"
    by code_simp
  show ?thesis
    using calculateOptimalTradeSize_cap [of "Num 1" "binary64 1.02" ex_host 30000000000000000
        15000000000000000 15000000000000000 25000000000000000]
      calculateOptimalTradeSize_cap [of "Num 1" "binary64 1.02" ex_host 5000000000000000
        15000000000000000 15000000000000000 25000000000000000] a b c
    by simp
qed

lemma calc_finish_Full:
  "calc_finish h cfg bp sp capital gasBuy eb fee es ee gasSell bb st = (Full a, st') \<Longrightarrow>
     st' = st \<and> bridgeBackFee a = formatEther h bb \<and>
     estimatedGasCostBuy a = gasBuy \<and> estimatedGasCostSell a = gasSell \<and>
     expectedEthFromSellWei a = ee \<and>
     totalCostsWei a = gasCost gasBuy + gasCost gasSell + bb \<and>
     analysis.estimatedProfitWei a = ee - capital - totalCostsWei a \<and>
     (isProfitable a \<longleftrightarrow> 0 < analysis.estimatedProfitWei a \<and>
        js_ge (profitUsd h bp (analysis.estimatedProfitWei a)) (minProfitThresholdUSD cfg))"
  by (auto simp: calc_finish_def calc_catch_def Let_def split: sum.splits)

text \<open>
  What a full analysis satisfies. The capital that \<open>calculateProfitability\<close> subtracts is
  the result of its own conversion, \<open>parseEther(maxExposureEth.toString())\<close>; the total
  costs are the two gas costs plus the fee of the return transfer (the last query of the
  call); \<open>isProfitable\<close> holds exactly when the profit is positive and its value in USD is
  at least the configured minimum.
\<close>

lemma calculateProfitability_analysis:
  "(token_address tok buyNet = [] \<or> token_address tok sellNet = [] \<longrightarrow>
      calculateProfitability h cfg w tok buyNet sellNet bp sp maxE st =
        (NotProfitable ''Token not available on one of the networks'', st)) \<and>
   (calculateProfitability h cfg w tok buyNet sellNet bp sp maxE st = (Full a, st') \<longrightarrow>
      (\<exists>capital bridgeBack st3.
         parseEther h (bn_toString h maxE) = Inr capital \<and>
         getBridgeFee w sellNet buyNet AddressZero (expectedEthFromSellWei a) st3 = (bridgeBack, st') \<and>
         bridgeBackFee a = formatEther h bridgeBack \<and>
         totalCostsWei a =
           gasCost (estimatedGasCostBuy a) + gasCost (estimatedGasCostSell a) + bridgeBack \<and>
         analysis.estimatedProfitWei a = expectedEthFromSellWei a - capital - totalCostsWei a \<and>
         (isProfitable a \<longleftrightarrow>
            0 < analysis.estimatedProfitWei a \<and>
            js_ge (profitUsd h bp (analysis.estimatedProfitWei a)) (minProfitThresholdUSD cfg))))"
proof (intro conjI impI)
  assume "token_address tok buyNet = [] \<or> token_address tok sellNet = []"
  then show "calculateProfitability h cfg w tok buyNet sellNet bp sp maxE st =
        (NotProfitable ''Token not available on one of the networks'', st)"
    by (auto simp: calculateProfitability_def Let_def)
next
  assume r: "calculateProfitability h cfg w tok buyNet sellNet bp sp maxE st = (Full a, st')"
  from r obtain capital gasBuy eb fee es ee gasSell bb st3 st4 where
    c: "parseEther h (bn_toString h maxE) = Inr capital" and
    g: "getBridgeFee w sellNet buyNet AddressZero ee st3 = (bb, st4)" and
    f: "calc_finish h cfg bp sp capital gasBuy eb fee es ee gasSell bb st4 = (Full a, st')"
    by (auto simp: calculateProfitability_def calc_catch_def Let_def
        split: if_splits sum.splits prod.splits)
  from calc_finish_Full [OF f] c g
  show "\<exists>capital bridgeBack st3.
         parseEther h (bn_toString h maxE) = Inr capital \<and>
         getBridgeFee w sellNet buyNet AddressZero (expectedEthFromSellWei a) st3 = (bridgeBack, st') \<and>
         bridgeBackFee a = formatEther h bridgeBack \<and>
         totalCostsWei a =
           gasCost (estimatedGasCostBuy a) + gasCost (estimatedGasCostSell a) + bridgeBack \<and>
         analysis.estimatedProfitWei a = expectedEthFromSellWei a - capital - totalCostsWei a \<and>
         (isProfitable a \<longleftrightarrow>
            0 < analysis.estimatedProfitWei a \<and>
            js_ge (profitUsd h bp (analysis.estimatedProfitWei a)) (minProfitThresholdUSD cfg))"
    by (intro exI [of _ capital] exI [of _ bb] exI [of _ st3]) simp
qed


text \<open>
  Claim C1 at the call that \<open>findArbitrageOpportunities\<close> makes, the only call of the
  repository: the budget handed in is \<open>config.wallet.maxExposurePerTrade\<close>, which is
  \<open>parseEther('5')\<close> and so already in wei. \<open>calculateProfitability\<close> prints it and parses
  the digits as ether: its capital is \<open>5 * 10 ^ 36\<close> wei. The analysis is full and
  its profit is the proceeds minus \<open>5 * 10 ^ 36\<close> minus the total costs, which is not the
  proceeds minus the budget of \<open>5 * 10 ^ 18\<close> wei minus the total costs. The opportunity
  that the finder returns in this market carries that profit.
\<close>

theorem calculateProfitability_budget_units:
  "maxExposurePerTrade default_config = 5 * 10 ^ 18 \<and>
   parseEther ex_host (bn_toString ex_host (maxExposurePerTrade default_config)) = Inr (5 * 10 ^ 36) \<and>
   (case fst (calculateProfitability ex_host default_config ex_world_quotes ex_token
                ''optimism'' ''arbitrum'' ex_buyPrice ex_sellPrice_high
                (maxExposurePerTrade default_config) ex_engine) of
      NotProfitable r \<Rightarrow> False
    | Full a \<Rightarrow>
        expectedEthFromSellWei a = 5125913373860182370820668693009118541 \<and>
        totalCostsWei a = 15377740121580547142462006079027355 \<and>
        totalCostsWei a =
          gasCost (estimatedGasCostBuy a) + gasCost (estimatedGasCostSell a)
          + bn_quot (expectedEthFromSellWei a * 3) 1000 \<and>
        analysis.estimatedProfitWei a = 110535633738601823678206686930091186 \<and>
        analysis.estimatedProfitWei a =
          expectedEthFromSellWei a - 5 * 10 ^ 36 - totalCostsWei a \<and>
        analysis.estimatedProfitWei a \<noteq>
          expectedEthFromSellWei a - maxExposurePerTrade default_config - totalCostsWei a) \<and>
   map (\<lambda>opp. analysis.estimatedProfitWei (profitability opp))
     (fst (findArbitrageOpportunities ex_host default_config ex_world_market [ex_token] ex_engine))
     = [110535633738601823678206686930091186]"
  by code_simp


subsection \<open>The opportunity finder\<close>

lemma prices_loop_distinct:
  "distinct (map fst prices) \<Longrightarrow> distinct (map fst (fst (prices_loop w tok nets prices st)))"
proof (induction nets arbitrary: prices st)
  case Nil
  then show ?case by simp
next
  case (Cons net nets)
  then show ?case
    by (auto simp: Let_def distinct_update split: prod.splits sum.splits)
qed

lemma getPricesAcrossChains_distinct:
  "distinct (map fst (fst (getPricesAcrossChains w tok st)))"
  by (simp add: getPricesAcrossChains_def prices_loop_distinct)

lemma pairs_members:
  "(a, b) \<in> set (pairs xs) \<Longrightarrow> a \<in> set xs \<and> b \<in> set xs"
  by (induction xs) auto

lemma pairs_distinct_keys:
  "distinct (map fst xs) \<Longrightarrow> (a, b) \<in> set (pairs xs) \<Longrightarrow> fst a \<noteq> fst b"
proof (induction xs)
  case Nil
  then show ?case by simp
next
  case (Cons x xs)
  then show ?case
    by (auto dest: pairs_members)
qed

lemma js_get_distinct:
  "distinct (map fst xs) \<Longrightarrow> (k, v) \<in> set xs \<Longrightarrow> js_get xs k = Some v"
  by (simp add: js_get_def)

lemma js_trichotomy:
  "\<not> js_lt s t \<Longrightarrow> \<not> js_lt t s \<Longrightarrow> s = t \<or> s = NaN \<or> t = NaN"
  by (cases s; cases t) auto

lemma equal_prices_below_threshold:
  "js_lt (Num 0) thr \<Longrightarrow>
     \<not> js_ge (Math_abs (js_mul (js_div (js_sub s s) s) (Num 100))) thr"
  by (cases s; cases thr) (auto simp: js_ge_def js_le_def js_sub_def)

lemma nan_price_below_threshold:
  "s = NaN \<or> t = NaN \<Longrightarrow>
     \<not> js_ge (Math_abs (js_mul (js_div (js_sub t s) s) (Num 100))) thr"
  by (cases s; cases t) (auto simp: js_ge_def js_le_def js_sub_def)

lemma threshold_gives_order:
  assumes "js_lt (Num 0) thr"
    and "js_ge (Math_abs (js_mul (js_div (js_sub t s) s) (Num 100))) thr"
  shows "js_lt s t \<or> js_lt t s"
proof (rule ccontr)
  assume "\<not> (js_lt s t \<or> js_lt t s)"
  then have "s = t \<or> s = NaN \<or> t = NaN" using js_trichotomy by blast
  then show False
    using assms equal_prices_below_threshold [of thr s] nan_price_below_threshold [of s t thr]
    by auto
qed

lemma check_pair_sound:
  assumes thr: "js_lt (Num 0) (priceDeviationThreshold cfg)"
    and d: "distinct (map fst prices)"
    and m: "entry \<in> set (pairs prices)"
    and inv: "\<forall>opp \<in> set (fst acc). P opp"
    and new: "\<And>opp. well_directed cfg opp \<Longrightarrow> quoted prices opp \<Longrightarrow> opportunity.token opp = tok \<Longrightarrow> P opp"
  shows "\<forall>opp \<in> set (fst (check_pair h cfg w tok prices entry acc)). P opp"
proof -
  obtain sn spr tn tpr where e: "entry = ((sn, spr), (tn, tpr))" by (metis prod.collapse)
  obtain found st where a: "acc = (found, st)" by (cases acc) auto
  from pairs_members [of "(sn, spr)" "(tn, tpr)" prices] m e
  have mem: "(sn, spr) \<in> set prices" "(tn, tpr) \<in> set prices" by auto
  from pairs_distinct_keys [OF d, of "(sn, spr)" "(tn, tpr)"] m e have ne: "sn \<noteq> tn" by simp
  note gs = js_get_distinct [OF d mem(1)]
  note gt = js_get_distinct [OF d mem(2)]
  show ?thesis
  proof (cases "js_ge (Math_abs (percentDiff spr tpr)) (priceDeviationThreshold cfg)")
    case False
    with inv e a show ?thesis by (simp add: check_pair_def Let_def)
  next
    case True
    from threshold_gives_order [OF thr True [unfolded percentDiff_def]]
    have ord: "js_lt (priceInEth spr) (priceInEth tpr) \<or> js_lt (priceInEth tpr) (priceInEth spr)" .
    show ?thesis
    proof (cases "js_lt (priceInEth spr) (priceInEth tpr)")
      case lt: True
      obtain r st1 where c: "calculateProfitability h cfg w tok sn tn spr tpr (maxExposurePerTrade cfg) st = (r, st1)"
        by (cases "calculateProfitability h cfg w tok sn tn spr tpr (maxExposurePerTrade cfg) st") auto
      show ?thesis
      proof (cases "\<exists>an. r = Full an \<and> isProfitable an")
        case False
        with inv e a True lt ne gs gt c show ?thesis
          by (cases r) (auto simp: check_pair_def Let_def)
      next
        case yes: True
        then obtain an where an: "r = Full an" "isProfitable an" by blast
        let ?o = "\<lparr>opportunity.token = tok, opportunity.buyNetwork = sn,
                             opportunity.sellNetwork = tn, opportunity.buyPrice = spr,
                             opportunity.sellPrice = tpr, priceDifference = percentDiff spr tpr,
                             profitability = an,
                             opportunity.timestamp = clock w (log st1)\<rparr>"
        have res: "fst (check_pair h cfg w tok prices entry acc) = found @ [?o]"
          using e a True lt ne gs gt c an by (simp add: check_pair_def Let_def)
        have "well_directed cfg ?o" using True lt ne an by (simp add: well_directed_def)
        moreover have "quoted prices ?o" using gs gt by (simp add: quoted_def)
        ultimately have "P ?o" using new by simp
        with inv a res show ?thesis by simp
      qed
    next
      case nlt: False
      with ord have gt': "js_lt (priceInEth tpr) (priceInEth spr)" by simp
      obtain r st1 where c: "calculateProfitability h cfg w tok tn sn tpr spr (maxExposurePerTrade cfg) st = (r, st1)"
        by (cases "calculateProfitability h cfg w tok tn sn tpr spr (maxExposurePerTrade cfg) st") auto
      show ?thesis
      proof (cases "\<exists>an. r = Full an \<and> isProfitable an")
        case False
        with inv e a True nlt ne gs gt c show ?thesis
          by (cases r) (auto simp: check_pair_def Let_def)
      next
        case yes: True
        then obtain an where an: "r = Full an" "isProfitable an" by blast
        let ?o = "\<lparr>opportunity.token = tok, opportunity.buyNetwork = tn,
                             opportunity.sellNetwork = sn, opportunity.buyPrice = tpr,
                             opportunity.sellPrice = spr, priceDifference = percentDiff spr tpr,
                             profitability = an,
                             opportunity.timestamp = clock w (log st1)\<rparr>"
        have res: "fst (check_pair h cfg w tok prices entry acc) = found @ [?o]"
          using e a True nlt ne gs gt c an by (simp add: check_pair_def Let_def)
        have "well_directed cfg ?o" using True gt' ne an by (simp add: well_directed_def)
        moreover have "quoted prices ?o" using gs gt by (simp add: quoted_def)
        ultimately have "P ?o" using new by simp
        with inv a res show ?thesis by simp
      qed
    qed
  qed
qed

lemma foldl_check_pair_sound:
  assumes thr: "js_lt (Num 0) (priceDeviationThreshold cfg)"
    and d: "distinct (map fst prices)"
    and new: "\<And>opp. well_directed cfg opp \<Longrightarrow> quoted prices opp \<Longrightarrow> opportunity.token opp = tok \<Longrightarrow> P opp"
  shows "set es \<subseteq> set (pairs prices) \<Longrightarrow> \<forall>opp \<in> set (fst acc). P opp \<Longrightarrow>
     \<forall>opp \<in> set (fst (foldl (\<lambda>acc entry. check_pair h cfg w tok prices entry acc) acc es)). P opp"
proof (induction es arbitrary: acc)
  case Nil
  then show ?case by simp
next
  case (Cons e es)
  have "\<forall>opp \<in> set (fst (check_pair h cfg w tok prices e acc)). P opp"
    using check_pair_sound [OF thr d _ Cons.prems(2), of e tok h w] new Cons.prems(1) by auto
  with Cons show ?case by simp
qed

lemma check_token_sound:
  assumes thr: "js_lt (Num 0) (priceDeviationThreshold cfg)"
    and inv: "\<forall>opp \<in> set (fst acc). sound_opp cfg w opp"
  shows "\<forall>opp \<in> set (fst (check_token h cfg w acc tok)). sound_opp cfg w opp"
proof -
  obtain found st where a: "acc = (found, st)" by (cases acc) auto
  obtain prices st1 where g: "getPricesAcrossChains w tok st = (prices, st1)"
    by (cases "getPricesAcrossChains w tok st") auto
  have d: "distinct (map fst prices)" using getPricesAcrossChains_distinct [of w tok st] g by simp
  have new: "\<And>opp. well_directed cfg opp \<Longrightarrow> quoted prices opp \<Longrightarrow> opportunity.token opp = tok \<Longrightarrow>
      sound_opp cfg w opp"
    using g unfolding sound_opp_def by (metis fst_conv)
  have "\<forall>opp \<in> set (fst (foldl (\<lambda>acc entry. check_pair h cfg w tok prices entry acc) (found, st1) (pairs prices))).
      sound_opp cfg w opp"
    by (rule foldl_check_pair_sound [OF thr d new]) (use inv a in auto)
  with a g show ?thesis by (simp add: check_token_def)
qed

lemma foldl_check_token_sound:
  assumes thr: "js_lt (Num 0) (priceDeviationThreshold cfg)"
  shows "\<forall>opp \<in> set (fst acc). sound_opp cfg w opp \<Longrightarrow>
     \<forall>opp \<in> set (fst (foldl (check_token h cfg w) acc toks)). sound_opp cfg w opp"
proof (induction toks arbitrary: acc)
  case Nil
  then show ?case by simp
next
  case (Cons tok toks)
  from check_token_sound [OF thr Cons.prems, of h tok] Cons.IH show ?case by simp
qed

text \<open>
  Claim C2. With a positive price-deviation threshold, which \<open>config.js\<close> sets (0.5),
  every opportunity that \<open>findArbitrageOpportunities\<close> returns has a price difference
  whose absolute value reaches the threshold and a profitable analysis; its buy price is
  strictly below its sell price, its two networks differ, and the two prices are the ones
  that the scan of its token obtained for these two networks.
\<close>

theorem findArbitrageOpportunities_sound:
  assumes "js_lt (Num 0) (priceDeviationThreshold cfg)"
  shows "\<forall>opp \<in> set (fst (findArbitrageOpportunities h cfg w lsdTokens st)).
           well_directed cfg opp \<and>
           (\<exists>st0. quoted (fst (getPricesAcrossChains w (opportunity.token opp) st0)) opp)"
  using foldl_check_token_sound [OF assms, of "([], st)" w h "findCrosschainLSDTokens lsdTokens"]
  by (simp add: findArbitrageOpportunities_def sound_opp_def)

theorem findArbitrageOpportunities_sound_witness:
  "js_lt (Num 0) (priceDeviationThreshold default_config) \<and>
   map opportunity.buyNetwork
     (fst (findArbitrageOpportunities ex_host default_config ex_world_market [ex_token] ex_engine))
     = [''optimism''] \<and>
   map opportunity.sellNetwork
     (fst (findArbitrageOpportunities ex_host default_config ex_world_market [ex_token] ex_engine))
     = [''arbitrum''] \<and>
   well_directed default_config
     (hd (fst (findArbitrageOpportunities ex_host default_config ex_world_market [ex_token] ex_engine)))"
proof -
  let ?found = "fst (findArbitrageOpportunities ex_host default_config ex_world_market [ex_token] ex_engine)"
  have t: "js_lt (Num 0) (priceDeviationThreshold default_config)" by code_simp
  have b: "map opportunity.buyNetwork ?found = [''optimism'']" by code_simp
  have s: "map opportunity.sellNetwork ?found = [''arbitrum'']" by code_simp
  from b have "?found \<noteq> []" by auto
  then have "hd ?found \<in> set ?found" by simp
  with findArbitrageOpportunities_sound [OF t, of ex_host ex_world_market "[ex_token]" ex_engine]
  have "well_directed default_config (hd ?found)" by blast
  with t b s show ?thesis by simp
qed

subsection \<open>The strategy builder\<close>

lemma getBestArbitrageStrategy_fields:
  "getBestArbitrageStrategy h cfg w opp st = (Inr s, st') \<Longrightarrow>
     parseEther h (num_toString h
       (Math_min (ToNumber h (formatEther h (maxExposurePerTrade cfg)))
                 (ToNumber h (optimalTradeSize (profitability opp))))) = Inr (strategy.tradeSize s) \<and>
     useFlashLoan s =
       (flashLoanEnabled cfg \<and>
        str_gt (optimalTradeSize (profitability opp)) (formatEther h (maxExposurePerTrade cfg)))"
  by (auto simp: getBestArbitrageStrategy_def Let_def split: sum.splits prod.splits)

text \<open>
  Claim C7 at the recommended size \<open>'100'\<close>, the cap of \<open>calculateOptimalTradeSize\<close>, with
  the configuration of \<open>config.js\<close>: flash loans enabled and an exposure limit of 5 ether,
  printed \<open>'5.0'\<close>. The configuration has no \<open>bridges.connext\<close>, so \<open>getBridgingTime\<close>
  throws and \<open>getBestArbitrageStrategy\<close> returns no strategy. With a \<open>connext\<close> entry added
  to the configuration a strategy is returned; its trade size is the minimum, 5 ether, and
  its \<open>useFlashLoan\<close> is false although 100 exceeds 5: the two strings are compared as
  strings, and \<open>'100'\<close> is not greater than \<open>'5.0'\<close>.
\<close>

theorem getBestArbitrageStrategy_throws_and_compares_strings:
  "optimalTradeSize (profitability ex_opportunity) = ''100'' \<and>
   formatEther ex_host (maxExposurePerTrade default_config) = ''5.0'' \<and>
   ToNumber ex_host ''100'' = Num 100 \<and> ToNumber ex_host ''5.0'' = Num 5 \<and>
   js_gt (Num 100) (Num 5) \<and> flashLoanEnabled default_config \<and>
   \<not> str_gt ''100'' ''5.0'' \<and>
   js_get (bridges default_config) ''connext'' = None \<and>
   fst (getBestArbitrageStrategy ex_host default_config ex_world_quotes ex_opportunity ex_engine)
     = Inl (Error ''Cannot read properties of undefined (reading enabled)'') \<and>
   (case fst (getBestArbitrageStrategy ex_host
                (default_config\<lparr>bridges := (''connext'', False) # bridges default_config\<rparr>)
                ex_world_quotes ex_opportunity ex_engine) of
      Inl e \<Rightarrow> False
    | Inr s \<Rightarrow> \<not> useFlashLoan s \<and> strategy.tradeSize s = 5000000000000000000 \<and>
               bridgeTime s = Num 20)"
  by code_simp


subsection \<open>The bot\<close>

lemma executeArbitrage_catch_active:
  "activeTrade b = Some a \<Longrightarrow>
   fst (executeArbitrage_catch t e b) \<and> activeTrade (snd (executeArbitrage_catch t e b)) \<noteq> None"
  by (simp add: executeArbitrage_catch_def)

lemma executeArbitrage_end_active:
  assumes "activeTrade b = Some a"
  shows "fst (executeArbitrage_end t outcome b) \<and>
         activeTrade (snd (executeArbitrage_end t outcome b)) \<noteq> None"
  using assms
  by (auto simp add: executeArbitrage_end_def executeArbitrage_catch_def Let_def
           split: sum.splits option.splits)

lemma call_executeArbitrage_refused:
  "activeTrade (bot s) \<noteq> None \<Longrightarrow> call_executeArbitrage t opp s = s"
  by (simp add: call_executeArbitrage_def executeArbitrage_begin_def)

lemma call_scanForOpportunities_skipped:
  "activeTrade (bot s) \<noteq> None \<Longrightarrow> call_scanForOpportunities t s = s"
  by (simp add: call_scanForOpportunities_def scanForOpportunities_begin_def)

lemma single_flight_call_executeArbitrage:
  "single_flight s \<Longrightarrow> single_flight (call_executeArbitrage t opp s)"
  by (cases "activeTrade (bot s)")
     (auto simp add: single_flight_def call_executeArbitrage_def executeArbitrage_begin_def)

lemma single_flight_call_scanForOpportunities:
  "single_flight s \<Longrightarrow> single_flight (call_scanForOpportunities t s)"
  by (cases "activeTrade (bot s)")
     (auto simp add: single_flight_def call_scanForOpportunities_def scanForOpportunities_begin_def)

lemma activeTrade_scanForOpportunities_found:
  "activeTrade (scanForOpportunities_found h t opps b) = activeTrade b"
  by (simp add: scanForOpportunities_found_def)

lemma single_flight_found:
  "single_flight s \<Longrightarrow>
   single_flight (s\<lparr>bot := scanForOpportunities_found h t opps (bot s), scanning := n\<rparr>)"
  by (simp add: single_flight_def activeTrade_scanForOpportunities_found)

lemma single_flight_finish_trade:
  assumes "single_flight s" "executing s > 0"
  shows "single_flight (finish_trade h t outcome s)"
proof -
  from assms have ex: "executing s = 1" and ti: "timers s = 0"
    and "activeTrade (bot s) \<noteq> None"
    by (auto simp add: single_flight_def)
  then obtain a where a: "activeTrade (bot s) = Some a" by auto
  obtain timer b where e: "executeArbitrage_end t outcome (bot s) = (timer, b)"
    by (cases "executeArbitrage_end t outcome (bot s)")
  with executeArbitrage_end_active [OF a, of t outcome]
  have "timer" "activeTrade b \<noteq> None" by auto
  then show ?thesis
    using ex ti e by (simp add: single_flight_def finish_trade_def)
qed

lemma single_flight_fire_timer:
  assumes "single_flight s" "timers s > 0"
  shows "single_flight (fire_timer s)"
  using assms by (auto simp add: single_flight_def fire_timer_def)

lemma single_flight_step:
  assumes "bot_step h s s'" "single_flight s"
  shows "single_flight s'"
  using assms
proof (induction rule: bot_step.induct)
  case (scan_called s t)
  then show ?case by (rule single_flight_call_scanForOpportunities)
next
  case (scan_resumed s t opps)
  then show ?case by (simp add: single_flight_found)
next
  case (scan_resumed_auto s opp opps t)
  then show ?case
    by (simp add: single_flight_call_executeArbitrage single_flight_found)
next
  case (execute_called s t opp)
  then show ?case by (rule single_flight_call_executeArbitrage)
next
  case (execute_returned s t outcome)
  then show ?case by (simp add: single_flight_finish_trade)
next
  case (timer_fired s)
  then show ?case by (simp add: single_flight_fire_timer)
next
  case (running_set s r)
  then show ?case by (simp add: single_flight_def)
qed

lemma single_flight_initial: "single_flight (initial_process l)"
  by (simp add: single_flight_def initial_process_def initial_botState_def)

lemma reachable_single_flight:
  "reachable h l s \<Longrightarrow> single_flight s"
  by (induction rule: reachable.induct)
     (auto simp add: single_flight_initial intro: single_flight_step)

text \<open>
  Claim C8. While \<open>botState.activeTrade\<close> is set, a call of \<open>executeArbitrage\<close> returns
  at its guard: it does not go on to build a strategy or to execute one, and it leaves the
  bot's state, the ledger and the number of executions in progress as they were. A call of
  \<open>scanForOpportunities\<close> returns at its guard in the same way, without counting a scan.
  Hence, in every state that the process can reach, at most one execution is in progress,
  and \<open>activeTrade\<close> is set while it is.
\<close>

theorem bot_single_flight:
  "(activeTrade (bot s) \<noteq> None \<longrightarrow>
      executeArbitrage_begin t opp (bot s) = (False, bot s) \<and>
      call_executeArbitrage t opp s = s \<and>
      scanForOpportunities_begin t (bot s) = (False, bot s) \<and>
      call_scanForOpportunities t s = s) \<and>
   (reachable h l s \<longrightarrow>
      executing s \<le> 1 \<and> (executing s = 1 \<longrightarrow> activeTrade (bot s) \<noteq> None))"
proof (intro conjI impI)
  assume "reachable h l s"
  then have sf: "single_flight s" by (rule reachable_single_flight)
  then show "executing s \<le> 1" by (simp add: single_flight_def)
  assume "executing s = 1"
  with sf show "activeTrade (bot s) \<noteq> None" by (auto simp add: single_flight_def)
qed (simp_all add: call_executeArbitrage_refused call_scanForOpportunities_skipped
       executeArbitrage_begin_def scanForOpportunities_begin_def)


theorem bot_single_flight_witness:
  "activeTrade (bot ex_process) \<noteq> None \<and>
   reachable ex_host ex_ledger ex_process \<and>
   executing ex_process = 1 \<and>
   call_executeArbitrage 1700000001000 ex_opportunity ex_process = ex_process \<and>
   call_scanForOpportunities 1700000001000 ex_process = ex_process"
proof -
  have r: "reachable ex_host ex_ledger ex_process"
    unfolding ex_process_def by (rule reachable.step [OF reachable.start bot_step.execute_called])
  have a: "activeTrade (bot ex_process) \<noteq> None"
    by (simp add: ex_process_def call_executeArbitrage_def executeArbitrage_begin_def
          initial_process_def initial_botState_def)
  have e: "executing ex_process = 1"
    by (simp add: ex_process_def call_executeArbitrage_def executeArbitrage_begin_def
          initial_process_def initial_botState_def)
  from bot_single_flight [of ex_process 1700000001000 ex_opportunity ex_host ex_ledger] r a e
  show ?thesis by simp
qed

end
